theory Spec2Isabelle
  imports Main "HOL-Library.AList"
begin

section \<open>Values, exceptions and effects\<close>

text \<open>
  A rule in \<open>iptc.easy\<close> format is a Python dict from strings to strings or nested
  dicts, for instance \<^verbatim>\<open>{'target': {'LOG': {'log-prefix': 'DROP: '}}}\<close>. A dict is an
  association list in insertion order; a dict display is built with
  \<open>AList.update\<close>, so a repeated key keeps its first position and takes the last
  value, as in Python. The only dict the source compares with another one is the
  single-key jump rule, for which list equality and dict equality agree.
\<close>

datatype pyval = Str string | Dict "(string \<times> pyval) list"

type_synonym rule = "(string \<times> pyval) list"

definition dict_of :: "(string \<times> pyval) list \<Rightarrow> rule" where
  "dict_of kvs = foldl (\<lambda>d (k, v). AList.update k v d) [] kvs"

text \<open>The exceptions that occur: the backend's \<open>iptc.IPTCError\<close> and Python's own.\<close>

datatype exn = IPTCError string | TypeError string | KeyError string

text \<open>
  An action runs on a state and ends normally with a value or raises; the state it
  leaves behind is returned in both cases.
\<close>

type_synonym ('s, 'a) act = "'s \<Rightarrow> (exn + 'a) \<times> 's"

definition unitE :: "'a \<Rightarrow> ('s, 'a) act" where
  "unitE a s = (Inr a, s)"

definition raiseE :: "exn \<Rightarrow> ('s, 'a) act" where
  "raiseE e s = (Inl e, s)"

definition bindE :: "('s, 'a) act \<Rightarrow> ('a \<Rightarrow> ('s, 'b) act) \<Rightarrow> ('s, 'b) act" where
  "bindE m f s = (case m s of (Inl e, s') \<Rightarrow> (Inl e, s') | (Inr a, s') \<Rightarrow> f a s')"

definition thenE :: "('s, unit) act \<Rightarrow> ('s, 'b) act \<Rightarrow> ('s, 'b) act" where
  "thenE m n = bindE m (\<lambda>_. n)"

text \<open>\<^verbatim>\<open>for x in xs: body(x)\<close>\<close>

fun for_each :: "'x list \<Rightarrow> ('x \<Rightarrow> ('s, unit) act) \<Rightarrow> ('s, unit) act" where
  "for_each [] f = unitE ()"
| "for_each (x # xs) f = thenE (f x) (for_each xs f)"

text \<open>A loop that updates a local variable \<open>acc\<close> in its body.\<close>

fun foldE :: "'x list \<Rightarrow> ('x \<Rightarrow> 'a \<Rightarrow> ('s, 'a) act) \<Rightarrow> 'a \<Rightarrow> ('s, 'a) act" where
  "foldE [] f acc = unitE acc"
| "foldE (x # xs) f acc = bindE (f x acc) (foldE xs f)"

text \<open>A list comprehension whose element expression may raise.\<close>

fun mapE :: "('x \<Rightarrow> exn + 'y) \<Rightarrow> 'x list \<Rightarrow> exn + 'y list" where
  "mapE f [] = Inr []"
| "mapE f (x # xs) =
     (case f x of Inl e \<Rightarrow> Inl e
      | Inr y \<Rightarrow> (case mapE f xs of Inl e \<Rightarrow> Inl e | Inr ys \<Rightarrow> Inr (y # ys)))"

text \<open>Python's \<open>str\<close> on an integer.\<close>

definition digit :: "nat \<Rightarrow> char" where
  "digit n = ''0123456789'' ! n"

function str_nat :: "nat \<Rightarrow> string" where
  "str_nat n = (if n < 10 then [digit n] else str_nat (n div 10) @ [digit (n mod 10)])"
  by pat_completeness auto
termination
  by (relation "measure id") auto

definition str :: "int \<Rightarrow> string" where
  "str i = (if i < 0 then CHR ''-'' # str_nat (nat (- i)) else str_nat (nat i))"

text \<open>Python's \<^verbatim>\<open>sub in s\<close> on strings.\<close>

fun contains :: "string \<Rightarrow> string \<Rightarrow> bool" where
  "contains sub [] = (sub = [])"
| "contains sub (c # cs) = (take (length sub) (c # cs) = sub \<or> contains sub cs)"

section \<open>The firewall backend \<open>iptc_helper\<close>\<close>

text \<open>
  The module \<open>agent/iptc_helper.py\<close> is an external collaborator of the reconciler.
  The reconciler is written against its interface: a backend is a record of the
  operations, each an action on the backend's own state \<open>'b\<close>.
  \<open>batch_add_rules\<close> is called in two ways: with a list of rules and \<open>chain=\<close>,
  and with a list of \<open>(chain, rule, position)\<close> triples and no chain.
\<close>

datatype batch = Rules "rule list" | Triples "(string \<times> rule \<times> nat) list"

record 'b iptc_helper =
  has_chain :: "string \<Rightarrow> string \<Rightarrow> bool \<Rightarrow> ('b, bool) act"
  add_chain :: "string \<Rightarrow> string \<Rightarrow> bool \<Rightarrow> ('b, unit) act"
  flush_chain :: "string \<Rightarrow> string \<Rightarrow> bool \<Rightarrow> ('b, unit) act"
  get_policy :: "string \<Rightarrow> string \<Rightarrow> bool \<Rightarrow> ('b, string option) act"
  dump_table :: "string \<Rightarrow> bool \<Rightarrow> ('b, (string \<times> rule list) list) act"
  get_rule :: "string \<Rightarrow> string \<Rightarrow> nat \<Rightarrow> bool \<Rightarrow> ('b, rule option) act"
  add_rule :: "string \<Rightarrow> string \<Rightarrow> rule \<Rightarrow> nat \<Rightarrow> bool \<Rightarrow> ('b, unit) act"
  delete_rule :: "string \<Rightarrow> string \<Rightarrow> rule \<Rightarrow> bool \<Rightarrow> bool \<Rightarrow> ('b, unit) act"
  batch_add_rules :: "string \<Rightarrow> batch \<Rightarrow> string option \<Rightarrow> bool \<Rightarrow> ('b, unit) act"

section \<open>The reconciler \<open>agent/iptables_helper.py\<close>\<close>

definition TABLE :: string where "TABLE = ''filter''"
definition DROP_CHAIN :: string where "DROP_CHAIN = ''WOTT_LOG_DROP''"
definition OUTPUT_CHAIN :: string where "OUTPUT_CHAIN = ''WOTT_OUTPUT''"
definition INPUT_CHAIN :: string where "INPUT_CHAIN = ''WOTT_INPUT''"

subsection \<open>\<open>dump\<close>\<close>

text \<open>
  The value of one chain in the result: the dict \<^verbatim>\<open>{'rules': [...]}\<close>, with the key
  \<^verbatim>\<open>'policy'\<close> when \<open>cd_policy\<close> is not \<open>None\<close>.
\<close>

record chain_dump =
  cd_rules :: "rule list"
  cd_policy :: "string option"

type_synonym chains_dump = "(string \<times> chain_dump) list"
type_synonym tables_dump = "(string \<times> (string \<times> chains_dump) list) list"

text \<open>\<^verbatim>\<open>if policy:\<close> is false for \<open>None\<close> and for the empty string.\<close>

definition truthy :: "string option \<Rightarrow> bool" where
  "truthy p = (case p of None \<Rightarrow> False | Some x \<Rightarrow> x \<noteq> [])"

definition dump_chain ::
  "'b iptc_helper \<Rightarrow> string \<Rightarrow> bool \<Rightarrow> string \<times> rule list \<Rightarrow> chains_dump \<Rightarrow> ('b, chains_dump) act"
where
  "dump_chain B table_name ipv6 = (\<lambda>(chain_name, chain) chains.
     bindE (get_policy B table_name chain_name ipv6) (\<lambda>policy.
       let rules = \<lparr>cd_rules = [rule. rule \<leftarrow> chain, chain_name \<noteq> OUTPUT_CHAIN], cd_policy = None\<rparr>;
           rules = (if truthy policy then rules\<lparr>cd_policy := policy\<rparr> else rules)
       in unitE (AList.update chain_name rules chains)))"

definition dump_step :: "'b iptc_helper \<Rightarrow> string \<times> bool \<Rightarrow> tables_dump \<Rightarrow> ('b, tables_dump) act" where
  "dump_step B = (\<lambda>(table_name, ipv6) tables.
     bindE (dump_table B table_name ipv6) (\<lambda>table.
     bindE (foldE table (dump_chain B table_name ipv6) []) (\<lambda>chains.
       let fam = (if ipv6 then ''v6'' else ''v4'') in
       case map_of tables fam of
         None \<Rightarrow> raiseE (KeyError fam)
       | Some t \<Rightarrow> unitE (AList.update fam (AList.update table_name chains t) tables))))"

definition dump :: "'b iptc_helper \<Rightarrow> ('b, tables_dump) act" where
  "dump B =
     foldE (List.product [''filter'', ''nat'', ''mangle''] [False, True]) (dump_step B)
       [(''v6'', []), (''v4'', [])]"

subsection \<open>\<open>prepare\<close>\<close>

definition log_rule :: rule where
  "log_rule = dict_of [(''target'', Dict (dict_of [(''LOG'',
     Dict (dict_of [(''log-prefix'', Str ''DROP: ''), (''log-level'', Str ''3'')]))]))]"

definition drop_rule :: rule where
  "drop_rule = dict_of [(''target'', Str ''DROP'')]"

text \<open>\<^verbatim>\<open>jump_to_target = {'target': target_chain}\<close>\<close>

definition jump_to :: "string \<Rightarrow> rule" where
  "jump_to target_chain = dict_of [(''target'', Str target_chain)]"

text \<open>The body of the inner loop over \<open>(target_chain, chain)\<close>.\<close>

definition prepare_jump :: "'b iptc_helper \<Rightarrow> bool \<Rightarrow> string \<times> string \<Rightarrow> ('b, unit) act" where
  "prepare_jump B ipv6 = (\<lambda>(target_chain, chain).
     let jump_to_target = jump_to target_chain in
     bindE (get_rule B TABLE chain 1 ipv6) (\<lambda>first_rule.
       if Some jump_to_target \<noteq> first_rule then
         thenE (delete_rule B TABLE chain jump_to_target ipv6 False)
               (add_rule B TABLE chain jump_to_target 1 ipv6)
       else unitE ()))"

text \<open>The body of the loop over \<open>ipv6\<close>.\<close>

definition prepare_family :: "'b iptc_helper \<Rightarrow> bool \<Rightarrow> ('b, unit) act" where
  "prepare_family B ipv6 =
     thenE (bindE (has_chain B TABLE DROP_CHAIN ipv6) (\<lambda>h.
              if \<not> h then
                thenE (add_chain B TABLE DROP_CHAIN ipv6)
                      (batch_add_rules B TABLE (Rules [log_rule, drop_rule]) (Some DROP_CHAIN) ipv6)
              else unitE ()))
    (thenE (bindE (has_chain B TABLE INPUT_CHAIN ipv6) (\<lambda>h.
              if \<not> h then add_chain B TABLE INPUT_CHAIN ipv6
              else flush_chain B TABLE INPUT_CHAIN ipv6))
    (thenE (bindE (has_chain B TABLE OUTPUT_CHAIN ipv6) (\<lambda>h.
              if \<not> h then add_chain B TABLE OUTPUT_CHAIN ipv6
              else flush_chain B TABLE OUTPUT_CHAIN ipv6))
           (for_each [(INPUT_CHAIN, ''INPUT''), (OUTPUT_CHAIN, ''OUTPUT'')] (prepare_jump B ipv6))))"

definition prepare :: "'b iptc_helper \<Rightarrow> ('b, unit) act" where
  "prepare B = for_each [False, True] (prepare_family B)"

subsection \<open>\<open>add_block_rules\<close>\<close>

definition lo_rule :: rule where
  "lo_rule = dict_of [(''in-interface'', Str ''lo''), (''target'', Str ''ACCEPT'')]"

definition conntrack_rule :: rule where
  "conntrack_rule = dict_of [(''conntrack'', Dict (dict_of [(''ctstate'', Str ''RELATED,ESTABLISHED'')])),
                             (''target'', Str ''ACCEPT'')]"

definition add_block_rules :: "'b iptc_helper \<Rightarrow> ('b, unit) act" where
  "add_block_rules B =
     for_each [False, True] (\<lambda>ipv6.
       batch_add_rules B TABLE (Triples [
         (INPUT_CHAIN, lo_rule, 1),
         (INPUT_CHAIN, conntrack_rule, 2),
         (INPUT_CHAIN, drop_rule, 0)]) None ipv6)"

subsection \<open>\<open>add_rules\<close>, \<open>block_ports\<close>, \<open>block_networks\<close>\<close>

definition add_rules :: "'b iptc_helper \<Rightarrow> string \<Rightarrow> string \<Rightarrow> (rule \<times> bool) list \<Rightarrow> ('b, unit) act" where
  "add_rules B table chain rules =
     for_each [False, True] (\<lambda>ipv6.
       let rules_ipv = [rule. (rule, is_ipv6) \<leftarrow> rules, ipv6 = is_ipv6]
       in batch_add_rules B table (Rules rules_ipv) (Some chain) ipv6)"

text \<open>\<open>r['dst']\<close> raises \<open>KeyError\<close> on a dict without that key.\<close>

definition remove_unspecified :: "rule \<Rightarrow> exn + rule" where
  "remove_unspecified r =
     (case map_of r ''dst'' of
        None \<Rightarrow> Inl (KeyError ''dst'')
      | Some d \<Rightarrow> Inr (if d \<in> set [Str ''0.0.0.0'', Str ''::''] then AList.delete ''dst'' r else r))"

definition port_rule :: "bool \<Rightarrow> string \<times> string \<times> int \<times> bool \<Rightarrow> exn + rule \<times> bool" where
  "port_rule allow = (\<lambda>(host, proto, port, ipv6).
     case remove_unspecified (dict_of [
            (''protocol'', Str proto),
            (proto, Dict (dict_of [(''dport'', Str (str port))])),
            (''dst'', Str host),
            (''target'', Str (if allow then DROP_CHAIN else ''ACCEPT''))])
     of Inl e \<Rightarrow> Inl e | Inr r \<Rightarrow> Inr (r, ipv6))"

definition block_ports :: "'b iptc_helper \<Rightarrow> bool \<Rightarrow> (string \<times> string \<times> int \<times> bool) list \<Rightarrow> ('b, unit) act" where
  "block_ports B allow ports_data =
     (case mapE (port_rule allow) ports_data of
        Inl e \<Rightarrow> raiseE e
      | Inr rules \<Rightarrow> add_rules B TABLE INPUT_CHAIN rules)"

definition network_rule :: "string \<times> bool \<Rightarrow> rule \<times> bool" where
  "network_rule = (\<lambda>(n, ipv6). (dict_of [(''dst'', Str n), (''target'', Str DROP_CHAIN)], ipv6))"

definition block_networks :: "'b iptc_helper \<Rightarrow> (string \<times> bool) list \<Rightarrow> ('b, unit) act" where
  "block_networks B network_list =
     (let rules = [network_rule x. x \<leftarrow> network_list]
      in add_rules B TABLE OUTPUT_CHAIN rules)"

subsection \<open>\<open>block\<close>\<close>

text \<open>
  The policy document is a dict; a key may be missing, and \<open>.get(key, default)\<close> then
  gives the default.
\<close>

record blocklist =
  bl_policy :: "string option"
  bl_block_networks :: "(string \<times> bool) list option"
  bl_block_ports :: "(string \<times> string \<times> int \<times> bool) list option"
  bl_allow_ports :: "(string \<times> string \<times> int \<times> bool) list option"

definition get_or :: "'a option \<Rightarrow> 'a \<Rightarrow> 'a" where
  "get_or v d = (case v of None \<Rightarrow> d | Some x \<Rightarrow> x)"

text \<open>
  The logger: \<open>block\<close> runs on the backend state paired with the records logged so far.
  The other functions never log, so they run on the backend state alone.
\<close>

datatype level = ERROR | DEBUG

type_synonym log = "(level \<times> string) list"

definition on_backend :: "('b, 'a) act \<Rightarrow> ('b \<times> log, 'a) act" where
  "on_backend m = (\<lambda>(b, l). case m b of (r, b') \<Rightarrow> (r, (b', l)))"

definition logger_error :: "string \<Rightarrow> ('b \<times> log, unit) act" where
  "logger_error msg = (\<lambda>(b, l). (Inr (), (b, l @ [(ERROR, msg)])))"

text \<open>
  \<^verbatim>\<open>logger.debug(exc_info=True)\<close>: \<open>Logger.debug(msg, *args, **kwargs)\<close> has a required
  positional parameter \<open>msg\<close>, so the call raises \<open>TypeError\<close> before anything is
  logged (the wording of the message depends on the Python version).
\<close>

definition logger_debug_exc_info :: "('b \<times> log, unit) act" where
  "logger_debug_exc_info = raiseE (TypeError ''debug() missing 1 required positional argument: msg'')"

text \<open>\<^verbatim>\<open>try: body except iptc.IPTCError as e: handler(str(e))\<close>\<close>

definition try_except_IPTCError :: "('s, 'a) act \<Rightarrow> (string \<Rightarrow> ('s, 'a) act) \<Rightarrow> ('s, 'a) act" where
  "try_except_IPTCError body handler s =
     (case body s of
        (Inl (IPTCError msg), s') \<Rightarrow> handler msg s'
      | (r, s') \<Rightarrow> (r, s'))"

definition quoted :: "string \<Rightarrow> string" where
  "quoted x = [CHR 0x22] @ x @ [CHR 0x22]"

definition block :: "'b iptc_helper \<Rightarrow> blocklist \<Rightarrow> ('b \<times> log, unit) act" where
  "block B blocklist =
     (let policy = get_or (bl_policy blocklist) ''allow'' in
      try_except_IPTCError
        (thenE (on_backend (prepare B))
        (thenE (on_backend (block_networks B (get_or (bl_block_networks blocklist) [])))
           (if policy = ''allow'' then
              on_backend (block_ports B True (get_or (bl_block_ports blocklist) []))
            else if policy = ''block'' then
              thenE (on_backend (block_ports B False (get_or (bl_allow_ports blocklist) [])))
                    (on_backend (add_block_rules B))
            else logger_error (''Error: unknown policy '' @ quoted policy))))
        (\<lambda>e.
           thenE (logger_error (''Error while updating iptables: '' @ e))
          (thenE logger_debug_exc_info
                 (if contains ''insmod'' e then
                    logger_error ''Error: failed to update iptables, try rebooting''
                  else unitE ()))))"

section \<open>A model of the backend\<close>

text \<open>
  The state of the packet filter: for each table and address family the chains in
  order of creation, each a named list of rules, and the default verdict of the chains
  that have one.
\<close>

record fw_state =
  chains :: "string \<Rightarrow> bool \<Rightarrow> (string \<times> rule list) list"
  policies :: "string \<Rightarrow> string \<Rightarrow> bool \<Rightarrow> string option"

definition lookup_chain :: "fw_state \<Rightarrow> string \<Rightarrow> bool \<Rightarrow> string \<Rightarrow> rule list option" where
  "lookup_chain st table ipv6 chain = map_of (chains st table ipv6) chain"

definition store_chain :: "fw_state \<Rightarrow> string \<Rightarrow> bool \<Rightarrow> string \<Rightarrow> rule list \<Rightarrow> fw_state" where
  "store_chain st table ipv6 chain rs =
     st\<lparr>chains := (chains st)(table := (chains st table)(ipv6 := AList.update chain rs (chains st table ipv6)))\<rparr>"

definition no_chain :: exn where
  "no_chain = IPTCError ''No chain/target/match by that name''"

text \<open>
  Modelled from the spec: \<open>iptc_helper.has_chain\<close> is not among the sources; it is the
  existence check \<open>has_chain(table, chain, family) -> bool\<close> of section 6.
\<close>

definition sb_has_chain :: "string \<Rightarrow> string \<Rightarrow> bool \<Rightarrow> (fw_state, bool) act" where
  "sb_has_chain table chain ipv6 st = (Inr (lookup_chain st table ipv6 chain \<noteq> None), st)"

text \<open>
  Modelled from the spec: \<open>iptc_helper.add_chain\<close> is not among the sources; it creates
  the chain, empty (section 4.3: "if absent, create empty"). Creating a chain that
  exists is a backend error.
\<close>

definition sb_add_chain :: "string \<Rightarrow> string \<Rightarrow> bool \<Rightarrow> (fw_state, unit) act" where
  "sb_add_chain table chain ipv6 st =
     (if lookup_chain st table ipv6 chain \<noteq> None then (Inl (IPTCError ''Chain already exists''), st)
      else (Inr (), store_chain st table ipv6 chain []))"

text \<open>
  Modelled from the spec: \<open>iptc_helper.flush_chain\<close> is not among the sources; it
  removes all rules of the chain (section 4.3: "flush completely (all prior rules
  removed)"). A chain that does not exist is a backend error, here and below.
\<close>

definition sb_flush_chain :: "string \<Rightarrow> string \<Rightarrow> bool \<Rightarrow> (fw_state, unit) act" where
  "sb_flush_chain table chain ipv6 st =
     (if lookup_chain st table ipv6 chain = None then (Inl no_chain, st)
      else (Inr (), store_chain st table ipv6 chain []))"

text \<open>
  Modelled from the spec: \<open>iptc_helper.get_policy\<close> is not among the sources; it gives
  the optional default verdict of a chain (section 6).
\<close>

definition sb_get_policy :: "string \<Rightarrow> string \<Rightarrow> bool \<Rightarrow> (fw_state, string option) act" where
  "sb_get_policy table chain ipv6 st = (Inr (policies st table chain ipv6), st)"

text \<open>
  Modelled from the spec: \<open>iptc_helper.dump_table\<close> is not among the sources; it gives
  the chains of a table with their rules (section 6).
\<close>

definition sb_dump_table :: "string \<Rightarrow> bool \<Rightarrow> (fw_state, (string \<times> rule list) list) act" where
  "sb_dump_table table ipv6 st = (Inr (chains st table ipv6), st)"

text \<open>
  Modelled from the spec: \<open>iptc_helper.get_rule\<close> is not among the sources; it reads
  the rule at a position, counted from 1, or none (section 6: \<open>-> Rule|none\<close>;
  section 4.3: "read rule #1").
\<close>

definition sb_get_rule :: "string \<Rightarrow> string \<Rightarrow> nat \<Rightarrow> bool \<Rightarrow> (fw_state, rule option) act" where
  "sb_get_rule table chain position ipv6 st =
     (case lookup_chain st table ipv6 chain of
        None \<Rightarrow> (Inl no_chain, st)
      | Some rs \<Rightarrow>
          (Inr (if 1 \<le> position \<and> position \<le> length rs then Some (rs ! (position - 1)) else None), st))"

text \<open>
  Modelled from the spec: \<open>iptc_helper.add_rule\<close> is not among the sources; it inserts
  the rule at the position, counted from 1 (section 4.3: "insert the jump rule at
  position 1"); position 0 appends (section 4.3: "unconditional drop (appended last)",
  which the source passes as position 0). A position beyond the end is a backend error.
\<close>

definition sb_add_rule :: "string \<Rightarrow> string \<Rightarrow> rule \<Rightarrow> nat \<Rightarrow> bool \<Rightarrow> (fw_state, unit) act" where
  "sb_add_rule table chain r position ipv6 st =
     (case lookup_chain st table ipv6 chain of
        None \<Rightarrow> (Inl no_chain, st)
      | Some rs \<Rightarrow>
          if position = 0 then (Inr (), store_chain st table ipv6 chain (rs @ [r]))
          else if position \<le> length rs + 1 then
            (Inr (), store_chain st table ipv6 chain (take (position - 1) rs @ r # drop (position - 1) rs))
          else (Inl (IPTCError ''Index of insertion too big''), st))"

text \<open>
  Modelled from the spec: \<open>iptc_helper.delete_rule\<close> is not among the sources; it
  deletes the rule equal to the given one wherever it is in the chain, the first one if
  there are several; when there is none it raises if \<open>raise_exc\<close> is set and does
  nothing otherwise (section 4.3: "delete any existing jump-to-that-chain rule wherever
  it is (ignore not found)"; section 3: rules are equal iff match and target are equal).
\<close>

definition sb_delete_rule :: "string \<Rightarrow> string \<Rightarrow> rule \<Rightarrow> bool \<Rightarrow> bool \<Rightarrow> (fw_state, unit) act" where
  "sb_delete_rule table chain r ipv6 raise_exc st =
     (case lookup_chain st table ipv6 chain of
        None \<Rightarrow> if raise_exc then (Inl no_chain, st) else (Inr (), st)
      | Some rs \<Rightarrow>
          if r \<in> set rs then (Inr (), store_chain st table ipv6 chain (remove1 r rs))
          else if raise_exc then (Inl (IPTCError ''Bad rule (does a matching rule exist in that chain?)''), st)
          else (Inr (), st))"

text \<open>
  Modelled from the spec: \<open>iptc_helper.batch_add_rules\<close> is not among the sources. With
  a chain it "replaces the chain's entire active rule list with exactly the given list
  (full-replace semantics)"; with a list of \<open>(chain, rule, position)\<close> triples it
  "applies each insert" (section 6), in the order of the list. The two ways of calling
  it cannot be mixed.
\<close>

definition sb_batch_add_rules :: "string \<Rightarrow> batch \<Rightarrow> string option \<Rightarrow> bool \<Rightarrow> (fw_state, unit) act" where
  "sb_batch_add_rules table batch_rules chain ipv6 st =
     (case (batch_rules, chain) of
        (Rules rs, Some c) \<Rightarrow>
          (if lookup_chain st table ipv6 c = None then (Inl no_chain, st)
           else (Inr (), store_chain st table ipv6 c rs))
      | (Triples ts, None) \<Rightarrow>
          for_each ts (\<lambda>(c, r, position). sb_add_rule table c r position ipv6) st
      | _ \<Rightarrow> (Inl (TypeError ''batch_rules does not fit chain''), st))"

definition spec_backend :: "fw_state iptc_helper" where
  "spec_backend = \<lparr>
     has_chain = sb_has_chain,
     add_chain = sb_add_chain,
     flush_chain = sb_flush_chain,
     get_policy = sb_get_policy,
     dump_table = sb_dump_table,
     get_rule = sb_get_rule,
     add_rule = sb_add_rule,
     delete_rule = sb_delete_rule,
     batch_add_rules = sb_batch_add_rules\<rparr>"

text \<open>
  Modelled from the spec: the additive reading of section 4.3, step 3 ("insert into the
  input-policy chain ... additively"), for comparison with the backend above: this
  backend differs from it only in that \<open>batch_add_rules\<close> with a chain appends the
  given rules to the rules of the chain.
\<close>

definition ab_batch_add_rules :: "string \<Rightarrow> batch \<Rightarrow> string option \<Rightarrow> bool \<Rightarrow> (fw_state, unit) act" where
  "ab_batch_add_rules table batch_rules chain ipv6 st =
     (case (batch_rules, chain) of
        (Rules rs, Some c) \<Rightarrow>
          (case lookup_chain st table ipv6 c of
             None \<Rightarrow> (Inl no_chain, st)
           | Some old \<Rightarrow> (Inr (), store_chain st table ipv6 c (old @ rs)))
      | _ \<Rightarrow> sb_batch_add_rules table batch_rules chain ipv6 st)"

definition appending_backend :: "fw_state iptc_helper" where
  "appending_backend = spec_backend\<lparr>batch_add_rules := ab_batch_add_rules\<rparr>"

text \<open>
  Modelled from the spec: a backend that is unavailable (section 7: "Backend unavailable
  / kernel module missing"): every operation raises \<open>IPTCError\<close> with the given
  message and changes nothing.
\<close>

definition unavailable_backend :: "string \<Rightarrow> unit iptc_helper" where
  "unavailable_backend msg = \<lparr>
     has_chain = (\<lambda>_ _ _. raiseE (IPTCError msg)),
     add_chain = (\<lambda>_ _ _. raiseE (IPTCError msg)),
     flush_chain = (\<lambda>_ _ _. raiseE (IPTCError msg)),
     get_policy = (\<lambda>_ _ _. raiseE (IPTCError msg)),
     dump_table = (\<lambda>_ _. raiseE (IPTCError msg)),
     get_rule = (\<lambda>_ _ _ _. raiseE (IPTCError msg)),
     add_rule = (\<lambda>_ _ _ _ _. raiseE (IPTCError msg)),
     delete_rule = (\<lambda>_ _ _ _ _. raiseE (IPTCError msg)),
     batch_add_rules = (\<lambda>_ _ _ _. raiseE (IPTCError msg))\<rparr>"

text \<open>
  A freshly booted packet filter: the built-in chains of the \<open>filter\<close> table, empty,
  with default verdict \<open>ACCEPT\<close>, in both families.
\<close>

definition fresh_state :: fw_state where
  "fresh_state = \<lparr>
     chains = (\<lambda>table ipv6. if table = ''filter''
                 then [(''INPUT'', []), (''FORWARD'', []), (''OUTPUT'', [])] else []),
     policies = (\<lambda>table chain ipv6.
                 if table = ''filter'' \<and> chain \<in> set [''INPUT'', ''FORWARD'', ''OUTPUT'']
                 then Some ''ACCEPT'' else None)\<rparr>"

section \<open>The rules the specification describes\<close>

text \<open>
  The rule of section 4.3, step 3, for an entry \<open>(host, protocol, port, family)\<close> of
  \<open>ports_data\<close>, written out from the specification's words: a match on the protocol
  and on the destination port, a destination match unless the host is the all-zeros
  address of either family, and the log-drop chain as target when \<open>allow\<close> is true,
  \<open>ACCEPT\<close> otherwise.
\<close>

definition spec_port_rule :: "bool \<Rightarrow> string \<Rightarrow> string \<Rightarrow> int \<Rightarrow> rule" where
  "spec_port_rule allow host proto port =
     [(''protocol'', Str proto), (proto, Dict [(''dport'', Str (str port))])]
     @ (if host = ''0.0.0.0'' \<or> host = ''::'' then [] else [(''dst'', Str host)])
     @ [(''target'', Str (if allow then ''WOTT_LOG_DROP'' else ''ACCEPT''))]"

section \<open>The chain skeleton the specification describes\<close>

text \<open>
  The self-heal of section 4.3, step 1, on the rules of a built-in chain: when rule #1
  is the jump rule the chain stays as it is; otherwise the jump rule is deleted where it
  is (if it is there) and inserted at position 1.
\<close>

definition heal :: "rule \<Rightarrow> rule list \<Rightarrow> rule list" where
  "heal j rs = (if rs \<noteq> [] \<and> hd rs = j then rs else j # remove1 j rs)"

text \<open>
  The chain skeleton of section 4.3, step 1, for one family: the log-drop chain created
  with its two static rules if it is absent and left as it is otherwise, the input-policy
  and output-policy chains empty.
\<close>

definition bootstrap :: "bool \<Rightarrow> fw_state \<Rightarrow> fw_state" where
  "bootstrap v st =
     store_chain (store_chain
       (if lookup_chain st ''filter'' v ''WOTT_LOG_DROP'' = None
        then store_chain st ''filter'' v ''WOTT_LOG_DROP'' [log_rule, drop_rule] else st)
       ''filter'' v ''WOTT_INPUT'' []) ''filter'' v ''WOTT_OUTPUT'' []"

text \<open>The chain skeleton of a family is in place.\<close>

definition skeleton :: "bool \<Rightarrow> fw_state \<Rightarrow> bool" where
  "skeleton v st =
     (lookup_chain st ''filter'' v ''WOTT_LOG_DROP'' \<noteq> None
      \<and> lookup_chain st ''filter'' v ''WOTT_INPUT'' = Some []
      \<and> lookup_chain st ''filter'' v ''WOTT_OUTPUT'' = Some [])"

text \<open>
  A family is converged: the skeleton is in place and the first rule of each of the
  built-in chains \<open>INPUT\<close> and \<open>OUTPUT\<close> is the jump to its policy chain.
\<close>

definition prepared :: "bool \<Rightarrow> fw_state \<Rightarrow> bool" where
  "prepared v st =
     (skeleton v st
      \<and> (\<exists>ri. lookup_chain st ''filter'' v ''INPUT'' = Some ri \<and> heal (jump_to ''WOTT_INPUT'') ri = ri)
      \<and> (\<exists>ro. lookup_chain st ''filter'' v ''OUTPUT'' = Some ro \<and> heal (jump_to ''WOTT_OUTPUT'') ro = ro))"

section \<open>The export the specification describes\<close>

text \<open>
  The value of one chain in the diagnostic export, as the export is described: the
  chain's rules under \<open>rules\<close>, except that they are empty for the chain \<open>WOTT_OUTPUT\<close>,
  and the policy that the backend reports, when it is not empty.
\<close>

definition spec_chain_dump ::
  "(string \<Rightarrow> string \<Rightarrow> bool \<Rightarrow> string option) \<Rightarrow> string \<Rightarrow> bool \<Rightarrow> string \<Rightarrow> rule list \<Rightarrow> chain_dump" where
  "spec_chain_dump gp t v c rs =
     \<lparr>cd_rules = (if c = ''WOTT_OUTPUT'' then [] else rs),
      cd_policy = (if truthy (gp t c v) then gp t c v else None)\<rparr>"

section \<open>Sequencing\<close>

lemma thenE_unitE: "thenE m (unitE ()) = m"
  by (auto simp: thenE_def bindE_def unitE_def fun_eq_iff split: prod.splits sum.splits)

lemma for_each_two: "for_each [a, b] f = thenE (f a) (f b)"
  by (simp add: thenE_unitE)

section \<open>The rule lists submitted by \<open>add_rules\<close>\<close>

lemma add_rules_calls:
  "add_rules B table chain rules =
     thenE (batch_add_rules B table (Rules [rule. (rule, is_ipv6) \<leftarrow> rules, \<not> is_ipv6]) (Some chain) False)
           (batch_add_rules B table (Rules [rule. (rule, is_ipv6) \<leftarrow> rules, is_ipv6]) (Some chain) True)"
  unfolding add_rules_def for_each_two by simp

lemma network_rules_fam:
  "[rule. (rule, is_ipv6) \<leftarrow> [network_rule x. x \<leftarrow> nl], P is_ipv6]
     = [[(''dst'', Str n), (''target'', Str ''WOTT_LOG_DROP'')]. (n, ipv6) \<leftarrow> nl, P ipv6]"
  by (induction nl) (auto simp: network_rule_def dict_of_def DROP_CHAIN_def)

text \<open>
  C2. For every backend and every \<open>network_list\<close>, \<open>block_networks\<close> is exactly two
  calls of the backend's full-replacement operation \<open>batch_add_rules\<close> on the chain
  \<open>WOTT_OUTPUT\<close> of the \<open>filter\<close> table, first for IPv4 and then for IPv6, and the
  list submitted for a family holds the rule
  \<^verbatim>\<open>{'dst': n, 'target': 'WOTT_LOG_DROP'}\<close> for each network \<open>n\<close> of that family, in
  the order of the input. So a family without a network in the input is sent the empty
  list, and a network that is not in the input for a family has no rule in that
  family's list.
\<close>

theorem block_networks_full_replace:
  "block_networks B network_list =
     thenE (batch_add_rules B ''filter''
              (Rules [[(''dst'', Str n), (''target'', Str ''WOTT_LOG_DROP'')]. (n, ipv6) \<leftarrow> network_list, \<not> ipv6])
              (Some ''WOTT_OUTPUT'') False)
           (batch_add_rules B ''filter''
              (Rules [[(''dst'', Str n), (''target'', Str ''WOTT_LOG_DROP'')]. (n, ipv6) \<leftarrow> network_list, ipv6])
              (Some ''WOTT_OUTPUT'') True)
   \<and> ((\<forall>(n, ipv6) \<in> set network_list. ipv6 \<noteq> f) \<longrightarrow>
        [[(''dst'', Str n), (''target'', Str ''WOTT_LOG_DROP'')]. (n, ipv6) \<leftarrow> network_list, ipv6 = f] = [])
   \<and> ((m, f) \<notin> set network_list \<longrightarrow>
        [(''dst'', Str m), (''target'', Str ''WOTT_LOG_DROP'')]
          \<notin> set [[(''dst'', Str n), (''target'', Str ''WOTT_LOG_DROP'')]. (n, ipv6) \<leftarrow> network_list, ipv6 = f])"
proof (intro conjI impI)
  show "block_networks B network_list =
     thenE (batch_add_rules B ''filter''
              (Rules [[(''dst'', Str n), (''target'', Str ''WOTT_LOG_DROP'')]. (n, ipv6) \<leftarrow> network_list, \<not> ipv6])
              (Some ''WOTT_OUTPUT'') False)
           (batch_add_rules B ''filter''
              (Rules [[(''dst'', Str n), (''target'', Str ''WOTT_LOG_DROP'')]. (n, ipv6) \<leftarrow> network_list, ipv6])
              (Some ''WOTT_OUTPUT'') True)"
    by (simp only: block_networks_def Let_def add_rules_calls network_rules_fam TABLE_def OUTPUT_CHAIN_def)
next
  assume "\<forall>(n, ipv6) \<in> set network_list. ipv6 \<noteq> f"
  then show "[[(''dst'', Str n), (''target'', Str ''WOTT_LOG_DROP'')]. (n, ipv6) \<leftarrow> network_list, ipv6 = f] = []"
    by (induction network_list) auto
next
  assume "(m, f) \<notin> set network_list"
  then show "[(''dst'', Str m), (''target'', Str ''WOTT_LOG_DROP'')]
          \<notin> set [[(''dst'', Str n), (''target'', Str ''WOTT_LOG_DROP'')]. (n, ipv6) \<leftarrow> network_list, ipv6 = f]"
    by (induction network_list) auto
qed

theorem block_networks_full_replace_witness:
  "block_networks spec_backend [(''10.0.0.0/8'', False)] =
     thenE (batch_add_rules spec_backend ''filter''
              (Rules [[(''dst'', Str ''10.0.0.0/8''), (''target'', Str ''WOTT_LOG_DROP'')]])
              (Some ''WOTT_OUTPUT'') False)
           (batch_add_rules spec_backend ''filter'' (Rules []) (Some ''WOTT_OUTPUT'') True)
   \<and> [[(''dst'', Str n), (''target'', Str ''WOTT_LOG_DROP'')]. (n, ipv6) \<leftarrow> [(''10.0.0.0/8'', False)], ipv6 = True] = []
   \<and> (''192.168.0.1'', False) \<notin> set [(''10.0.0.0/8'', False)]
   \<and> [(''dst'', Str ''192.168.0.1''), (''target'', Str ''WOTT_LOG_DROP'')]
          \<notin> set [[(''dst'', Str ''10.0.0.0/8''), (''target'', Str ''WOTT_LOG_DROP'')]]"
  using block_networks_full_replace [of spec_backend "[(''10.0.0.0/8'', False)]" True "''192.168.0.1''"]
        block_networks_full_replace [of spec_backend "[(''10.0.0.0/8'', False)]" False "''192.168.0.1''"]
  by simp

section \<open>The rules derived by \<open>block_ports\<close>\<close>

lemma port_rule_spec:
  assumes "proto \<noteq> ''protocol''" "proto \<noteq> ''dst''" "proto \<noteq> ''target''"
  shows "port_rule allow (host, proto, port, ipv6) = Inr (spec_port_rule allow host proto port, ipv6)"
  using assms
  by (simp add: port_rule_def remove_unspecified_def dict_of_def spec_port_rule_def DROP_CHAIN_def AList.delete_eq)

lemma port_rule_total: "\<exists>r. port_rule allow (host, proto, port, ipv6) = Inr (r, ipv6)"
  by (simp add: port_rule_def remove_unspecified_def dict_of_def update_conv')

lemma mapE_port_rule_total:
  "\<exists>rules. mapE (port_rule allow) ports_data = Inr rules
      \<and> map snd rules = map (\<lambda>(host, proto, port, ipv6). ipv6) ports_data"
proof (induction ports_data)
  case Nil
  show ?case by simp
next
  case (Cons e es)
  obtain host proto port ipv6 where e: "e = (host, proto, port, ipv6)"
    by (cases e)
  from port_rule_total[of allow host proto port ipv6] obtain r where
    "port_rule allow (host, proto, port, ipv6) = Inr (r, ipv6)" by blast
  with Cons e show ?case by auto
qed

lemma spec_port_rule_matches:
  assumes "proto \<noteq> ''protocol''" "proto \<noteq> ''dst''" "proto \<noteq> ''target''"
  shows "map_of (spec_port_rule allow host proto port) ''protocol'' = Some (Str proto)"
    and "map_of (spec_port_rule allow host proto port) proto = Some (Dict [(''dport'', Str (str port))])"
    and "map_of (spec_port_rule allow host proto port) ''dst''
           = (if host = ''0.0.0.0'' \<or> host = ''::'' then None else Some (Str host))"
    and "map_of (spec_port_rule allow host proto port) ''target''
           = Some (Str (if allow then ''WOTT_LOG_DROP'' else ''ACCEPT''))"
  using assms by (simp_all add: spec_port_rule_def)

lemma mapE_port_rule_entries:
  "\<exists>rules. mapE (port_rule allow) ports_data = Inr rules
     \<and> list_all2 (\<lambda>(host, proto, port, ipv6) (rule, is_ipv6).
           is_ipv6 = ipv6
         \<and> (proto \<notin> {''protocol'', ''dst'', ''target''} \<longrightarrow>
              rule = spec_port_rule allow host proto port
            \<and> map_of rule ''protocol'' = Some (Str proto)
            \<and> map_of rule proto = Some (Dict [(''dport'', Str (str port))])
            \<and> map_of rule ''dst'' = (if host = ''0.0.0.0'' \<or> host = ''::'' then None else Some (Str host))
            \<and> map_of rule ''target'' = Some (Str (if allow then ''WOTT_LOG_DROP'' else ''ACCEPT''))))
         ports_data rules"
proof (induction ports_data)
  case Nil
  show ?case by simp
next
  case (Cons e es)
  obtain host proto port ipv6 where e: "e = (host, proto, port, ipv6)"
    by (cases e)
  from port_rule_total[of allow host proto port ipv6] obtain r where
    r: "port_rule allow (host, proto, port, ipv6) = Inr (r, ipv6)" by blast
  have s: "proto \<notin> {''protocol'', ''dst'', ''target''} \<Longrightarrow> r = spec_port_rule allow host proto port"
    using r port_rule_spec[of proto allow host port ipv6] by simp
  from Cons obtain rules where
    IH: "mapE (port_rule allow) es = Inr rules"
        "list_all2 (\<lambda>(host, proto, port, ipv6) (rule, is_ipv6).
           is_ipv6 = ipv6
         \<and> (proto \<notin> {''protocol'', ''dst'', ''target''} \<longrightarrow>
              rule = spec_port_rule allow host proto port
            \<and> map_of rule ''protocol'' = Some (Str proto)
            \<and> map_of rule proto = Some (Dict [(''dport'', Str (str port))])
            \<and> map_of rule ''dst'' = (if host = ''0.0.0.0'' \<or> host = ''::'' then None else Some (Str host))
            \<and> map_of rule ''target'' = Some (Str (if allow then ''WOTT_LOG_DROP'' else ''ACCEPT''))))
         es rules"
    by blast
  show ?case
    apply (rule exI[of _ "(r, ipv6) # rules"])
    using IH r s spec_port_rule_matches[of proto allow host port]
    by (simp add: e)
qed

lemma block_ports_submits:
  assumes "mapE (port_rule allow) ports_data = Inr rules"
  shows "block_ports B allow ports_data =
     thenE (batch_add_rules B ''filter'' (Rules [rule. (rule, is_ipv6) \<leftarrow> rules, \<not> is_ipv6])
              (Some ''WOTT_INPUT'') False)
           (batch_add_rules B ''filter'' (Rules [rule. (rule, is_ipv6) \<leftarrow> rules, is_ipv6])
              (Some ''WOTT_INPUT'') True)"
  by (simp only: block_ports_def assms sum.case add_rules_calls TABLE_def INPUT_CHAIN_def)

text \<open>
  C4, as stated, fails for a protocol string that is itself a key of the rule dict: on
  the entry \<open>('1.2.3.4', 'dst', 80, IPv4)\<close> the key \<open>'dst'\<close> of the port match is
  overwritten by the destination, and the derived rule has no match on the port.
\<close>

theorem port_rule_reserved_key_counterexample:
  "port_rule True (''1.2.3.4'', ''dst'', 80, False) =
     Inr ([(''protocol'', Str ''dst''), (''dst'', Str ''1.2.3.4''), (''target'', Str ''WOTT_LOG_DROP'')], False)
   \<and> port_rule True (''1.2.3.4'', ''dst'', 80, False) \<noteq> Inr (spec_port_rule True ''1.2.3.4'' ''dst'' 80, False)"
  by (simp add: port_rule_def remove_unspecified_def dict_of_def spec_port_rule_def DROP_CHAIN_def)

text \<open>
  C4, amended. For every backend and every \<open>ports_data\<close>, \<open>block_ports\<close> derives one
  rule per entry, in the order of the input, and submits for the chain \<open>WOTT_INPUT\<close>
  and each family the rules of the entries of that family. For every entry
  \<open>(host, protocol, port, family)\<close> whose protocol is not one of the keys
  \<open>'protocol'\<close>, \<open>'dst'\<close>, \<open>'target'\<close>, whatever the other entries are, its rule
  matches the protocol and the destination port, has a destination match equal to the
  host if and only if the host is neither \<open>0.0.0.0\<close> nor \<open>::\<close>, and has the target
  \<open>WOTT_LOG_DROP\<close> when \<open>allow\<close> is true and \<open>ACCEPT\<close> when it is false.
\<close>

theorem block_ports_derives_rules:
  "\<exists>rules. mapE (port_rule allow) ports_data = Inr rules
     \<and> block_ports B allow ports_data =
         thenE (batch_add_rules B ''filter'' (Rules [rule. (rule, is_ipv6) \<leftarrow> rules, \<not> is_ipv6])
                  (Some ''WOTT_INPUT'') False)
               (batch_add_rules B ''filter'' (Rules [rule. (rule, is_ipv6) \<leftarrow> rules, is_ipv6])
                  (Some ''WOTT_INPUT'') True)
     \<and> list_all2 (\<lambda>(host, proto, port, ipv6) (rule, is_ipv6).
           is_ipv6 = ipv6
         \<and> (proto \<notin> {''protocol'', ''dst'', ''target''} \<longrightarrow>
              rule = spec_port_rule allow host proto port
            \<and> map_of rule ''protocol'' = Some (Str proto)
            \<and> map_of rule proto = Some (Dict [(''dport'', Str (str port))])
            \<and> map_of rule ''dst'' = (if host = ''0.0.0.0'' \<or> host = ''::'' then None else Some (Str host))
            \<and> map_of rule ''target'' = Some (Str (if allow then ''WOTT_LOG_DROP'' else ''ACCEPT''))))
         ports_data rules"
proof -
  from mapE_port_rule_entries[of allow ports_data] obtain rules where
    m: "mapE (port_rule allow) ports_data = Inr rules" and
    a: "list_all2 (\<lambda>(host, proto, port, ipv6) (rule, is_ipv6).
           is_ipv6 = ipv6
         \<and> (proto \<notin> {''protocol'', ''dst'', ''target''} \<longrightarrow>
              rule = spec_port_rule allow host proto port
            \<and> map_of rule ''protocol'' = Some (Str proto)
            \<and> map_of rule proto = Some (Dict [(''dport'', Str (str port))])
            \<and> map_of rule ''dst'' = (if host = ''0.0.0.0'' \<or> host = ''::'' then None else Some (Str host))
            \<and> map_of rule ''target'' = Some (Str (if allow then ''WOTT_LOG_DROP'' else ''ACCEPT''))))
         ports_data rules"
    by blast
  from m a block_ports_submits[OF m, of B] show ?thesis
    by blast
qed

theorem block_ports_derives_rules_witness:
  "block_ports spec_backend True
     [(''0.0.0.0'', ''tcp'', 22, False), (''1.2.3.4'', ''dst'', 80, False), (''fe80::1'', ''udp'', 53, True)] =
     thenE (batch_add_rules spec_backend ''filter''
              (Rules [[(''protocol'', Str ''tcp''), (''tcp'', Dict [(''dport'', Str ''22'')]),
                       (''target'', Str ''WOTT_LOG_DROP'')],
                      [(''protocol'', Str ''dst''), (''dst'', Str ''1.2.3.4''),
                       (''target'', Str ''WOTT_LOG_DROP'')]])
              (Some ''WOTT_INPUT'') False)
           (batch_add_rules spec_backend ''filter''
              (Rules [[(''protocol'', Str ''udp''), (''udp'', Dict [(''dport'', Str ''53'')]),
                       (''dst'', Str ''fe80::1''), (''target'', Str ''WOTT_LOG_DROP'')]])
              (Some ''WOTT_INPUT'') True)"
proof -
  let ?pd = "[(''0.0.0.0'', ''tcp'', 22, False), (''1.2.3.4'', ''dst'', 80, False), (''fe80::1'', ''udp'', 53, True)]"
  have m: "mapE (port_rule True) ?pd =
     Inr [([(''protocol'', Str ''tcp''), (''tcp'', Dict [(''dport'', Str ''22'')]), (''target'', Str ''WOTT_LOG_DROP'')], False),
          ([(''protocol'', Str ''dst''), (''dst'', Str ''1.2.3.4''), (''target'', Str ''WOTT_LOG_DROP'')], False),
          ([(''protocol'', Str ''udp''), (''udp'', Dict [(''dport'', Str ''53'')]), (''dst'', Str ''fe80::1''),
            (''target'', Str ''WOTT_LOG_DROP'')], True)]"
    by code_simp
  from block_ports_derives_rules[of True ?pd spec_backend] obtain rules where
    a: "mapE (port_rule True) ?pd = Inr rules" and
    b: "block_ports spec_backend True ?pd =
         thenE (batch_add_rules spec_backend ''filter'' (Rules [rule. (rule, is_ipv6) \<leftarrow> rules, \<not> is_ipv6])
                  (Some ''WOTT_INPUT'') False)
               (batch_add_rules spec_backend ''filter'' (Rules [rule. (rule, is_ipv6) \<leftarrow> rules, is_ipv6])
                  (Some ''WOTT_INPUT'') True)"
    by blast
  from a have "rules =
         [([(''protocol'', Str ''tcp''), (''tcp'', Dict [(''dport'', Str ''22'')]), (''target'', Str ''WOTT_LOG_DROP'')], False),
          ([(''protocol'', Str ''dst''), (''dst'', Str ''1.2.3.4''), (''target'', Str ''WOTT_LOG_DROP'')], False),
          ([(''protocol'', Str ''udp''), (''udp'', Dict [(''dport'', Str ''53'')]), (''dst'', Str ''fe80::1''),
            (''target'', Str ''WOTT_LOG_DROP'')], True)]"
    unfolding m by simp
  with b show ?thesis
    by simp
qed

section \<open>The orchestration of \<open>block\<close>\<close>

text \<open>
  C1. For every backend and every policy document: when \<open>prepare\<close> and then
  \<open>block_networks\<close> on the document's \<open>block_networks\<close> end normally, \<open>block\<close> goes
  on by the policy (\<open>allow\<close> when the key is missing). For \<open>allow\<close> it runs
  \<open>block_ports\<close> with \<open>allow = True\<close> on the document's \<open>block_ports\<close>; for \<open>block\<close>
  it runs \<open>block_ports\<close> with \<open>allow = False\<close> on the document's \<open>allow_ports\<close> and
  then \<open>add_block_rules\<close>; in both cases nothing is logged. For any other policy the
  backend is left in the state that \<open>prepare\<close> and \<open>block_networks\<close> produced, and
  exactly one error record is logged.
\<close>

theorem block_orchestration:
  assumes "prepare B s = (Inr (), s1)"
      and "block_networks B (get_or (bl_block_networks doc) []) s1 = (Inr (), s2)"
  shows "(get_or (bl_policy doc) ''allow'' = ''allow'' \<longrightarrow>
            block_ports B True (get_or (bl_block_ports doc) []) s2 = (Inr (), s3) \<longrightarrow>
            block B doc (s, l) = (Inr (), (s3, l)))
       \<and> (get_or (bl_policy doc) ''allow'' = ''block'' \<longrightarrow>
            block_ports B False (get_or (bl_allow_ports doc) []) s2 = (Inr (), s3) \<longrightarrow>
            add_block_rules B s3 = (Inr (), s4) \<longrightarrow>
            block B doc (s, l) = (Inr (), (s4, l)))
       \<and> (get_or (bl_policy doc) ''allow'' \<noteq> ''allow'' \<longrightarrow>
          get_or (bl_policy doc) ''allow'' \<noteq> ''block'' \<longrightarrow>
            block B doc (s, l) =
              (Inr (), (s2, l @ [(ERROR, ''Error: unknown policy '' @ quoted (get_or (bl_policy doc) ''allow''))])))"
  using assms
  by (simp add: block_def Let_def try_except_IPTCError_def thenE_def bindE_def on_backend_def
        logger_error_def)

theorem block_orchestration_witness:
  "block spec_backend
     \<lparr>bl_policy = Some ''allow'', bl_block_networks = Some [(''10.0.0.0/8'', False)],
      bl_block_ports = Some [(''0.0.0.0'', ''tcp'', 22, False)], bl_allow_ports = None\<rparr>
     (fresh_state, [])
   = (Inr (),
      (snd (block_ports spec_backend True [(''0.0.0.0'', ''tcp'', 22, False)]
         (snd (block_networks spec_backend [(''10.0.0.0/8'', False)]
            (snd (prepare spec_backend fresh_state))))), []))
   \<and> block spec_backend
     \<lparr>bl_policy = Some ''block'', bl_block_networks = Some [(''10.0.0.0/8'', False)],
      bl_block_ports = None, bl_allow_ports = Some [(''0.0.0.0'', ''tcp'', 22, False)]\<rparr>
     (fresh_state, [])
   = (Inr (),
      (snd (add_block_rules spec_backend
         (snd (block_ports spec_backend False [(''0.0.0.0'', ''tcp'', 22, False)]
            (snd (block_networks spec_backend [(''10.0.0.0/8'', False)]
               (snd (prepare spec_backend fresh_state))))))), []))
   \<and> block spec_backend
     \<lparr>bl_policy = Some ''frobnicate'', bl_block_networks = Some [(''10.0.0.0/8'', False)],
      bl_block_ports = None, bl_allow_ports = None\<rparr>
     (fresh_state, [])
   = (Inr (),
      (snd (block_networks spec_backend [(''10.0.0.0/8'', False)]
              (snd (prepare spec_backend fresh_state))),
       [(ERROR, ''Error: unknown policy '' @ quoted ''frobnicate'')]))"
proof -
  let ?nets = "[(''10.0.0.0/8'', False)]"
  let ?ports = "[(''0.0.0.0'', ''tcp'', 22, False)]"
  let ?s1 = "snd (prepare spec_backend fresh_state)"
  let ?s2 = "snd (block_networks spec_backend ?nets ?s1)"
  let ?s3a = "snd (block_ports spec_backend True ?ports ?s2)"
  let ?s3b = "snd (block_ports spec_backend False ?ports ?s2)"
  let ?s4 = "snd (add_block_rules spec_backend ?s3b)"
  have "fst (prepare spec_backend fresh_state) = Inr ()"
    by code_simp
  then have p: "prepare spec_backend fresh_state = (Inr (), ?s1)"
    by (simp add: prod_eq_iff)
  have "fst (block_networks spec_backend ?nets ?s1) = Inr ()"
    by code_simp
  then have n: "block_networks spec_backend ?nets ?s1 = (Inr (), ?s2)"
    by (simp add: prod_eq_iff)
  have "fst (block_ports spec_backend True ?ports ?s2) = Inr ()"
    by code_simp
  then have a: "block_ports spec_backend True ?ports ?s2 = (Inr (), ?s3a)"
    by (simp add: prod_eq_iff)
  have "fst (block_ports spec_backend False ?ports ?s2) = Inr ()"
    by code_simp
  then have b: "block_ports spec_backend False ?ports ?s2 = (Inr (), ?s3b)"
    by (simp add: prod_eq_iff)
  have "fst (add_block_rules spec_backend ?s3b) = Inr ()"
    by code_simp
  then have r: "add_block_rules spec_backend ?s3b = (Inr (), ?s4)"
    by (simp add: prod_eq_iff)
  show ?thesis
    using block_orchestration
            [where B = spec_backend and s = fresh_state and ?s1.0 = ?s1 and ?s2.0 = ?s2
               and ?s3.0 = ?s3a and l = "[]"
               and doc = "\<lparr>bl_policy = Some ''allow'', bl_block_networks = Some ?nets,
                  bl_block_ports = Some ?ports, bl_allow_ports = None\<rparr>"]
          block_orchestration
            [where B = spec_backend and s = fresh_state and ?s1.0 = ?s1 and ?s2.0 = ?s2
               and ?s3.0 = ?s3b and ?s4.0 = ?s4 and l = "[]"
               and doc = "\<lparr>bl_policy = Some ''block'', bl_block_networks = Some ?nets,
                  bl_block_ports = None, bl_allow_ports = Some ?ports\<rparr>"]
          block_orchestration
            [where B = spec_backend and s = fresh_state and ?s1.0 = ?s1 and ?s2.0 = ?s2
               and l = "[]"
               and doc = "\<lparr>bl_policy = Some ''frobnicate'', bl_block_networks = Some ?nets,
                  bl_block_ports = None, bl_allow_ports = None\<rparr>"]
          p n a b r
    by (simp add: get_or_def)
qed

section \<open>Backend errors in \<open>block\<close>\<close>

lemma block_IPTCError:
  assumes "prepare B s = (Inl (IPTCError msg), s')"
  shows "block B doc (s, l) =
           (Inl (TypeError ''debug() missing 1 required positional argument: msg''),
            (s', l @ [(ERROR, ''Error while updating iptables: '' @ msg)]))"
  using assms
  by (simp add: block_def Let_def try_except_IPTCError_def on_backend_def thenE_def bindE_def
        logger_error_def logger_debug_exc_info_def raiseE_def)

lemma prepare_unavailable:
  "prepare (unavailable_backend msg) s = (Inl (IPTCError msg), s)"
  by (simp add: prepare_def prepare_family_def unavailable_backend_def thenE_def bindE_def raiseE_def)

text \<open>
  C7 does not hold of the code. On a backend whose calls raise \<open>IPTCError\<close> with a
  message that contains \<open>insmod\<close>, \<open>block\<close> catches the error and logs it, and then
  the handler's \<^verbatim>\<open>logger.debug(exc_info=True)\<close>, which lacks the message argument,
  raises \<open>TypeError\<close>: \<open>block\<close> raises to its caller, and the hint to reboot is never
  logged.
\<close>

theorem block_backend_error_raises:
  "block (unavailable_backend ''can not initialize iptables table filter: try insmod'')
         \<lparr>bl_policy = Some ''allow'', bl_block_networks = Some [], bl_block_ports = Some [],
          bl_allow_ports = None\<rparr>
         ((), [])
   = (Inl (TypeError ''debug() missing 1 required positional argument: msg''),
      ((), [(ERROR, ''Error while updating iptables: can not initialize iptables table filter: try insmod'')]))"
  by (simp add: block_IPTCError[OF prepare_unavailable])

section \<open>The model of the backend: chains\<close>

lemma lookup_store:
  "lookup_chain (store_chain st t v c rs) t' v' c' =
     (if t' = t \<and> v' = v \<and> c' = c then Some rs else lookup_chain st t' v' c')"
  by (simp add: lookup_chain_def store_chain_def update_conv')

lemma store_triv: "lookup_chain st t v c = Some rs \<Longrightarrow> store_chain st t v c rs = st"
  by (simp add: lookup_chain_def store_chain_def update_triv)

lemma store_store: "store_chain (store_chain st t v c rs) t v c rs' = store_chain st t v c rs'"
  by (simp add: store_chain_def)

lemma policies_store: "policies (store_chain st t v c rs) = policies st"
  by (simp add: store_chain_def)

lemma sb_sel:
  "has_chain spec_backend = sb_has_chain"
  "add_chain spec_backend = sb_add_chain"
  "flush_chain spec_backend = sb_flush_chain"
  "get_policy spec_backend = sb_get_policy"
  "dump_table spec_backend = sb_dump_table"
  "get_rule spec_backend = sb_get_rule"
  "add_rule spec_backend = sb_add_rule"
  "delete_rule spec_backend = sb_delete_rule"
  "batch_add_rules spec_backend = sb_batch_add_rules"
  by (simp_all add: spec_backend_def)

lemma ensure_drop_chain:
  "bindE (has_chain spec_backend t c v) (\<lambda>h.
       if \<not> h then thenE (add_chain spec_backend t c v)
                         (batch_add_rules spec_backend t (Rules rs) (Some c) v)
       else unitE ()) st
   = (Inr (), if lookup_chain st t v c = None then store_chain st t v c rs else st)"
  by (simp add: sb_sel bindE_def thenE_def unitE_def sb_has_chain_def sb_add_chain_def
        sb_batch_add_rules_def lookup_store store_store)

lemma ensure_empty_chain:
  "bindE (has_chain spec_backend t c v) (\<lambda>h.
       if \<not> h then add_chain spec_backend t c v else flush_chain spec_backend t c v) st
   = (Inr (), store_chain st t v c [])"
  by (simp add: sb_sel bindE_def sb_has_chain_def sb_add_chain_def sb_flush_chain_def)

lemma prepare_jump_sb:
  "prepare_jump spec_backend v (tc, c) st =
     (case lookup_chain st ''filter'' v c of
        None \<Rightarrow> (Inl no_chain, st)
      | Some rs \<Rightarrow> (Inr (), store_chain st ''filter'' v c (heal (jump_to tc) rs)))"
proof (cases "lookup_chain st ''filter'' v c")
  case None
  then show ?thesis
    by (simp add: prepare_jump_def Let_def sb_sel bindE_def sb_get_rule_def TABLE_def)
next
  case (Some rs)
  show ?thesis
  proof (cases "rs \<noteq> [] \<and> hd rs = jump_to tc")
    case True
    then have "rs ! 0 = jump_to tc" "1 \<le> length rs"
      by (cases rs; simp)+
    with True Some show ?thesis
      by (simp add: prepare_jump_def Let_def sb_sel bindE_def sb_get_rule_def TABLE_def unitE_def
            heal_def store_triv)
  next
    case False
    then have ne: "Some (jump_to tc) \<noteq> (if 1 \<le> length rs then Some (rs ! 0) else None)"
      by (cases rs) auto
    have rm: "jump_to tc \<notin> set rs \<Longrightarrow> remove1 (jump_to tc) rs = rs"
      by (simp add: remove1_idem)
    from False Some ne show ?thesis
      by (auto simp add: prepare_jump_def sb_sel bindE_def thenE_def sb_get_rule_def TABLE_def
            sb_delete_rule_def sb_add_rule_def lookup_store store_store heal_def rm Let_def)
  qed
qed

lemma thenE_apply:
  "thenE m n st = (case m st of (Inl e, s') \<Rightarrow> (Inl e, s') | (Inr u, s') \<Rightarrow> n s')"
  by (simp add: thenE_def bindE_def)

lemma lookup_bootstrap_builtin:
  "c \<notin> {''WOTT_LOG_DROP'', ''WOTT_INPUT'', ''WOTT_OUTPUT''} \<Longrightarrow>
   lookup_chain (bootstrap v st) t v' c = lookup_chain st t v' c"
  by (simp add: bootstrap_def lookup_store)

lemma prepare_family_sb:
  "prepare_family spec_backend v st =
     (case lookup_chain st ''filter'' v ''INPUT'' of
        None \<Rightarrow> (Inl no_chain, bootstrap v st)
      | Some ri \<Rightarrow>
         (case lookup_chain st ''filter'' v ''OUTPUT'' of
            None \<Rightarrow> (Inl no_chain,
                      store_chain (bootstrap v st) ''filter'' v ''INPUT'' (heal (jump_to ''WOTT_INPUT'') ri))
          | Some ro \<Rightarrow> (Inr (),
                      store_chain (store_chain (bootstrap v st) ''filter'' v ''INPUT''
                         (heal (jump_to ''WOTT_INPUT'') ri)) ''filter'' v ''OUTPUT''
                         (heal (jump_to ''WOTT_OUTPUT'') ro))))"
proof -
  have "prepare_family spec_backend v st =
          thenE (prepare_jump spec_backend v (''WOTT_INPUT'', ''INPUT''))
                (prepare_jump spec_backend v (''WOTT_OUTPUT'', ''OUTPUT'')) (bootstrap v st)"
    unfolding prepare_family_def for_each_two
    by (simp only: thenE_apply ensure_drop_chain ensure_empty_chain prod.case sum.case
          bootstrap_def TABLE_def DROP_CHAIN_def INPUT_CHAIN_def OUTPUT_CHAIN_def)
  then show ?thesis
    by (simp add: thenE_apply prepare_jump_sb lookup_bootstrap_builtin lookup_store
          split: option.splits)
qed

lemma heal_hd: "heal j rs \<noteq> [] \<and> hd (heal j rs) = j"
  by (simp add: heal_def)

lemma heal_idem: "heal j (heal j rs) = heal j rs"
  by (simp add: heal_def)

lemma filter_remove1_other: "\<not> P x \<Longrightarrow> filter P (remove1 x xs) = filter P xs"
  by (induction xs) auto

lemma heal_foreign: "filter (\<lambda>r. r \<noteq> j) (heal j rs) = filter (\<lambda>r. r \<noteq> j) rs"
  by (simp add: heal_def filter_remove1_other)

lemma bootstrap_triv: "skeleton v st \<Longrightarrow> bootstrap v st = st"
  by (auto simp add: skeleton_def bootstrap_def store_triv)

lemma skeleton_bootstrap: "skeleton v (bootstrap v st)"
  by (simp add: skeleton_def bootstrap_def lookup_store)

lemma skeleton_store:
  "c \<notin> {''WOTT_LOG_DROP'', ''WOTT_INPUT'', ''WOTT_OUTPUT''} \<Longrightarrow>
   skeleton v (store_chain st t v' c rs) = skeleton v st"
  by (auto simp add: skeleton_def lookup_store)

lemma lookup_bootstrap_other: "v' \<noteq> v \<Longrightarrow> lookup_chain (bootstrap v st) t v' c = lookup_chain st t v' c"
  by (simp add: bootstrap_def lookup_store)

lemma prepare_family_frame:
  "v' \<noteq> v \<Longrightarrow>
   lookup_chain (snd (prepare_family spec_backend v st)) t v' c = lookup_chain st t v' c"
  by (simp add: prepare_family_sb lookup_store lookup_bootstrap_other split: option.splits)

lemma prepare_family_fixed:
  assumes "prepare_family spec_backend v st = (r, st')"
  shows "prepare_family spec_backend v st' = (r, st')"
proof (cases "lookup_chain st ''filter'' v ''INPUT''")
  case None
  with assms have r: "r = Inl no_chain" "st' = bootstrap v st"
    by (simp_all add: prepare_family_sb)
  show ?thesis
    unfolding r
    by (simp add: prepare_family_sb lookup_bootstrap_builtin None bootstrap_triv skeleton_bootstrap)
next
  case (Some ri)
  note i = this
  show ?thesis
  proof (cases "lookup_chain st ''filter'' v ''OUTPUT''")
    case None
    with assms i have r: "r = Inl no_chain"
       "st' = store_chain (bootstrap v st) ''filter'' v ''INPUT'' (heal (jump_to ''WOTT_INPUT'') ri)"
      by (simp_all add: prepare_family_sb)
    have sk: "skeleton v st'"
      unfolding r by (simp add: skeleton_store skeleton_bootstrap)
    have li: "lookup_chain st' ''filter'' v ''INPUT'' = Some (heal (jump_to ''WOTT_INPUT'') ri)"
      unfolding r by (simp add: lookup_store)
    have lo: "lookup_chain st' ''filter'' v ''OUTPUT'' = None"
      unfolding r by (simp add: lookup_store lookup_bootstrap_builtin None)
    show ?thesis
      by (simp add: prepare_family_sb li lo bootstrap_triv[OF sk] heal_idem store_triv[OF li] r(1))
  next
    case (Some ro)
    with assms i have r: "r = Inr ()"
       "st' = store_chain (store_chain (bootstrap v st) ''filter'' v ''INPUT''
                 (heal (jump_to ''WOTT_INPUT'') ri)) ''filter'' v ''OUTPUT''
                 (heal (jump_to ''WOTT_OUTPUT'') ro)"
      by (simp_all add: prepare_family_sb)
    have sk: "skeleton v st'"
      unfolding r by (simp add: skeleton_store skeleton_bootstrap)
    have li: "lookup_chain st' ''filter'' v ''INPUT'' = Some (heal (jump_to ''WOTT_INPUT'') ri)"
      unfolding r by (simp add: lookup_store)
    have lo: "lookup_chain st' ''filter'' v ''OUTPUT'' = Some (heal (jump_to ''WOTT_OUTPUT'') ro)"
      unfolding r by (simp add: lookup_store)
    show ?thesis
      by (simp add: prepare_family_sb li lo bootstrap_triv[OF sk] heal_idem store_triv[OF li]
            store_triv[OF lo] r(1))
  qed
qed

lemma prepared_fixed: "prepared v st \<Longrightarrow> prepare_family spec_backend v st = (Inr (), st)"
  by (auto simp add: prepared_def prepare_family_sb bootstrap_triv store_triv)

lemma prepare_family_prepared:
  assumes "prepare_family spec_backend v st = (Inr (), st')"
  shows "prepared v st'"
  using assms
  by (auto simp add: prepare_family_sb prepared_def skeleton_store skeleton_bootstrap lookup_store
        heal_idem split: option.splits)

lemma prepared_frame:
  assumes "prepared v st" and "v' \<noteq> v"
  shows "prepared v (snd (prepare_family spec_backend v' st))"
  using assms
  by (simp add: prepared_def skeleton_def prepare_family_frame)

lemma prepare_two: "prepare B = thenE (prepare_family B False) (prepare_family B True)"
  unfolding prepare_def by (rule for_each_two)

lemma prepare_fixed:
  assumes "prepare spec_backend st = (r, st')"
  shows "prepare spec_backend st' = (r, st')"
proof -
  obtain r1 s1 where f: "prepare_family spec_backend False st = (r1, s1)"
    by (cases "prepare_family spec_backend False st")
  show ?thesis
  proof (cases r1)
    case (Inl e)
    with f assms have "r = Inl e" "st' = s1"
      by (simp_all add: prepare_two thenE_apply)
    with prepare_family_fixed[OF f] Inl show ?thesis
      by (simp add: prepare_two thenE_apply)
  next
    case (Inr u)
    with f assms have t: "prepare_family spec_backend True s1 = (r, st')"
      by (simp add: prepare_two thenE_apply)
    from f Inr have "prepared False s1"
      by (simp add: prepare_family_prepared)
    from prepared_frame[OF this, of True] t have "prepared False st'"
      by simp
    then have "prepare_family spec_backend False st' = (Inr (), st')"
      by (rule prepared_fixed)
    with prepare_family_fixed[OF t] show ?thesis
      by (simp add: prepare_two thenE_apply)
  qed
qed

lemma prepare_family_lookup:
  assumes "prepare_family spec_backend v st = (Inr (), st')"
  shows "\<exists>ri ro. lookup_chain st ''filter'' v ''INPUT'' = Some ri
           \<and> lookup_chain st' ''filter'' v ''INPUT'' = Some (heal (jump_to ''WOTT_INPUT'') ri)
           \<and> lookup_chain st ''filter'' v ''OUTPUT'' = Some ro
           \<and> lookup_chain st' ''filter'' v ''OUTPUT'' = Some (heal (jump_to ''WOTT_OUTPUT'') ro)"
  using assms
  by (auto simp add: prepare_family_sb lookup_store split: option.splits)

lemma prepare_family_drop:
  "lookup_chain (snd (prepare_family spec_backend v st)) ''filter'' v ''WOTT_LOG_DROP'' =
     Some (case lookup_chain st ''filter'' v ''WOTT_LOG_DROP'' of
             None \<Rightarrow> [log_rule, drop_rule] | Some rs \<Rightarrow> rs)"
  by (auto simp add: prepare_family_sb bootstrap_def lookup_store split: option.splits)

lemma prepare_split:
  assumes "prepare spec_backend st = (Inr (), st')"
  shows "\<exists>s1. prepare_family spec_backend False st = (Inr (), s1)
            \<and> prepare_family spec_backend True s1 = (Inr (), st')"
  using assms
  by (auto simp add: prepare_two thenE_apply split: prod.splits sum.splits)

lemma prepare_lookup:
  assumes "prepare spec_backend st = (Inr (), st')"
  shows "\<exists>ri ro. lookup_chain st ''filter'' v ''INPUT'' = Some ri
           \<and> lookup_chain st' ''filter'' v ''INPUT'' = Some (heal (jump_to ''WOTT_INPUT'') ri)
           \<and> lookup_chain st ''filter'' v ''OUTPUT'' = Some ro
           \<and> lookup_chain st' ''filter'' v ''OUTPUT'' = Some (heal (jump_to ''WOTT_OUTPUT'') ro)"
proof -
  from prepare_split[OF assms] obtain s1 where
    f: "prepare_family spec_backend False st = (Inr (), s1)" and
    t: "prepare_family spec_backend True s1 = (Inr (), st')"
    by blast
  have ft: "\<And>c. lookup_chain st' ''filter'' False c = lookup_chain s1 ''filter'' False c"
    using prepare_family_frame[of False True s1] t by simp
  have tf: "\<And>c. lookup_chain s1 ''filter'' True c = lookup_chain st ''filter'' True c"
    using prepare_family_frame[of True False st] f by simp
  show ?thesis
  proof (cases v)
    case True
    with prepare_family_lookup[OF t] tf show ?thesis by simp
  next
    case False
    with prepare_family_lookup[OF f] ft show ?thesis by simp
  qed
qed

lemma prepare_skeleton:
  assumes "prepare spec_backend st = (Inr (), st')"
  shows "skeleton v st'"
proof -
  from prepare_split[OF assms] obtain s1 where
    f: "prepare_family spec_backend False st = (Inr (), s1)" and
    t: "prepare_family spec_backend True s1 = (Inr (), st')"
    by blast
  have "prepared False st'"
    using prepared_frame[OF prepare_family_prepared[OF f], of True] t by simp
  moreover have "prepared True st'"
    by (rule prepare_family_prepared[OF t])
  ultimately show ?thesis
    by (cases v) (simp_all add: prepared_def)
qed

lemma prepare_drop_kept:
  assumes "lookup_chain st ''filter'' v ''WOTT_LOG_DROP'' = Some rs"
  shows "lookup_chain (snd (prepare spec_backend st)) ''filter'' v ''WOTT_LOG_DROP'' = Some rs"
proof -
  obtain r1 s1 where f: "prepare_family spec_backend False st = (r1, s1)"
    by (cases "prepare_family spec_backend False st")
  have s1: "lookup_chain s1 ''filter'' v ''WOTT_LOG_DROP'' = Some rs"
  proof (cases v)
    case True
    with prepare_family_frame[of True False st] f assms show ?thesis by simp
  next
    case False
    with prepare_family_drop[of False st] f assms show ?thesis by simp
  qed
  show ?thesis
  proof (cases r1)
    case (Inl e)
    with f s1 show ?thesis by (simp add: prepare_two thenE_apply)
  next
    case (Inr u)
    have "lookup_chain (snd (prepare_family spec_backend True s1)) ''filter'' v ''WOTT_LOG_DROP'' = Some rs"
    proof (cases v)
      case True
      with prepare_family_drop[of True s1] s1 show ?thesis by simp
    next
      case False
      with prepare_family_frame[of False True s1] s1 show ?thesis by simp
    qed
    with f Inr show ?thesis
      by (simp add: prepare_two thenE_apply)
  qed
qed

lemma prepare_drop_created:
  assumes "prepare spec_backend st = (Inr (), st')"
      and "lookup_chain st ''filter'' v ''WOTT_LOG_DROP'' = None"
  shows "lookup_chain st' ''filter'' v ''WOTT_LOG_DROP'' = Some [log_rule, drop_rule]"
proof -
  from prepare_split[OF assms(1)] obtain s1 where
    f: "prepare_family spec_backend False st = (Inr (), s1)" and
    t: "prepare_family spec_backend True s1 = (Inr (), st')"
    by blast
  show ?thesis
  proof (cases v)
    case True
    have "lookup_chain s1 ''filter'' True ''WOTT_LOG_DROP'' = None"
      using prepare_family_frame[of True False st] f assms(2) True by simp
    with prepare_family_drop[of True s1] t True show ?thesis by simp
  next
    case False
    have "lookup_chain s1 ''filter'' False ''WOTT_LOG_DROP'' = Some [log_rule, drop_rule]"
      using prepare_family_drop[of False st] f assms(2) False by simp
    with prepare_family_frame[of False True s1] t False show ?thesis by simp
  qed
qed

lemma prepare_family_succeeds:
  assumes "lookup_chain st ''filter'' v ''INPUT'' \<noteq> None"
      and "lookup_chain st ''filter'' v ''OUTPUT'' \<noteq> None"
  shows "fst (prepare_family spec_backend v st) = Inr ()"
proof -
  from assms obtain ri ro where
    "lookup_chain st ''filter'' v ''INPUT'' = Some ri" "lookup_chain st ''filter'' v ''OUTPUT'' = Some ro"
    by auto
  then show ?thesis
    by (simp add: prepare_family_sb)
qed

lemma prepare_succeeds:
  assumes "\<forall>v. lookup_chain st ''filter'' v ''INPUT'' \<noteq> None
             \<and> lookup_chain st ''filter'' v ''OUTPUT'' \<noteq> None"
  shows "fst (prepare spec_backend st) = Inr ()"
proof -
  from assms have "fst (prepare_family spec_backend False st) = Inr ()"
    by (simp add: prepare_family_succeeds)
  then obtain s1 where f: "prepare_family spec_backend False st = (Inr (), s1)"
    by (cases "prepare_family spec_backend False st") auto
  have "lookup_chain s1 ''filter'' True ''INPUT'' \<noteq> None" "lookup_chain s1 ''filter'' True ''OUTPUT'' \<noteq> None"
    using prepare_family_frame[of True False st] f assms by simp_all
  then have "fst (prepare_family spec_backend True s1) = Inr ()"
    by (rule prepare_family_succeeds)
  with f show ?thesis
    by (simp add: prepare_two thenE_apply split: prod.splits)
qed

section \<open>\<open>prepare\<close> on the model of the backend\<close>

text \<open>
  C5. On the backend of section 6: after \<open>prepare\<close> has returned, for each address
  family and each of the built-in chains \<open>INPUT\<close> and \<open>OUTPUT\<close>, the chain is not
  empty and its first rule is the jump to the corresponding policy chain. If rule #1 was
  that jump already, the chain is unchanged; otherwise the chain is the jump rule followed
  by the old rules with the first occurrence of the jump rule deleted (nothing is deleted
  when there was none). In both cases the rules other than the jump rule are the same as
  before, in the same order.
\<close>

theorem prepare_restores_jump_rules:
  assumes "prepare spec_backend st = (Inr (), st')"
  shows "\<forall>v. \<forall>(target_chain, chain) \<in> set [(''WOTT_INPUT'', ''INPUT''), (''WOTT_OUTPUT'', ''OUTPUT'')].
           \<exists>old new.
             lookup_chain st ''filter'' v chain = Some old
           \<and> lookup_chain st' ''filter'' v chain = Some new
           \<and> new \<noteq> [] \<and> hd new = [(''target'', Str target_chain)]
           \<and> (old \<noteq> [] \<and> hd old = [(''target'', Str target_chain)] \<longrightarrow> new = old)
           \<and> (\<not> (old \<noteq> [] \<and> hd old = [(''target'', Str target_chain)]) \<longrightarrow>
                 new = [(''target'', Str target_chain)] # remove1 [(''target'', Str target_chain)] old)
           \<and> filter (\<lambda>r. r \<noteq> [(''target'', Str target_chain)]) new
               = filter (\<lambda>r. r \<noteq> [(''target'', Str target_chain)]) old"
proof
  fix v
  have j: "\<And>tc. jump_to tc = [(''target'', Str tc)]"
    by (simp add: jump_to_def dict_of_def)
  from prepare_lookup[OF assms, of v] obtain ri ro where
    l: "lookup_chain st ''filter'' v ''INPUT'' = Some ri"
       "lookup_chain st' ''filter'' v ''INPUT'' = Some (heal (jump_to ''WOTT_INPUT'') ri)"
       "lookup_chain st ''filter'' v ''OUTPUT'' = Some ro"
       "lookup_chain st' ''filter'' v ''OUTPUT'' = Some (heal (jump_to ''WOTT_OUTPUT'') ro)"
    by blast
  have h: "\<And>tc old. heal [(''target'', Str tc)] old \<noteq> [] \<and> hd (heal [(''target'', Str tc)] old) = [(''target'', Str tc)]
           \<and> (old \<noteq> [] \<and> hd old = [(''target'', Str tc)] \<longrightarrow> heal [(''target'', Str tc)] old = old)
           \<and> (\<not> (old \<noteq> [] \<and> hd old = [(''target'', Str tc)]) \<longrightarrow>
                 heal [(''target'', Str tc)] old = [(''target'', Str tc)] # remove1 [(''target'', Str tc)] old)
           \<and> filter (\<lambda>r. r \<noteq> [(''target'', Str tc)]) (heal [(''target'', Str tc)] old)
               = filter (\<lambda>r. r \<noteq> [(''target'', Str tc)]) old"
    using heal_hd heal_foreign by (simp add: heal_def)
  show "\<forall>(target_chain, chain) \<in> set [(''WOTT_INPUT'', ''INPUT''), (''WOTT_OUTPUT'', ''OUTPUT'')].
           \<exists>old new.
             lookup_chain st ''filter'' v chain = Some old
           \<and> lookup_chain st' ''filter'' v chain = Some new
           \<and> new \<noteq> [] \<and> hd new = [(''target'', Str target_chain)]
           \<and> (old \<noteq> [] \<and> hd old = [(''target'', Str target_chain)] \<longrightarrow> new = old)
           \<and> (\<not> (old \<noteq> [] \<and> hd old = [(''target'', Str target_chain)]) \<longrightarrow>
                 new = [(''target'', Str target_chain)] # remove1 [(''target'', Str target_chain)] old)
           \<and> filter (\<lambda>r. r \<noteq> [(''target'', Str target_chain)]) new
               = filter (\<lambda>r. r \<noteq> [(''target'', Str target_chain)]) old"
    using l h[of "''WOTT_INPUT''" ri] h[of "''WOTT_OUTPUT''" ro]
    by (simp add: j)
qed

text \<open>
  C6. On the backend of section 6, from any state: a second \<open>prepare\<close> right after
  the first ends as the first did and leaves the state exactly as the first left it, so
  it adds no jump rule and no static rule. A log-drop chain that exists is never
  changed; when \<open>prepare\<close> returns, one that was absent holds exactly the two static
  rules, log-with-prefix and then drop. \<open>prepare\<close> returns whenever the built-in chains
  \<open>INPUT\<close> and \<open>OUTPUT\<close> exist in both families.
\<close>

theorem prepare_idempotent:
  "prepare spec_backend (snd (prepare spec_backend st)) = prepare spec_backend st
   \<and> (\<forall>v rs. lookup_chain st ''filter'' v ''WOTT_LOG_DROP'' = Some rs \<longrightarrow>
         lookup_chain (snd (prepare spec_backend st)) ''filter'' v ''WOTT_LOG_DROP'' = Some rs)
   \<and> (fst (prepare spec_backend st) = Inr () \<longrightarrow>
        (\<forall>v. lookup_chain st ''filter'' v ''WOTT_LOG_DROP'' = None \<longrightarrow>
           lookup_chain (snd (prepare spec_backend st)) ''filter'' v ''WOTT_LOG_DROP'' =
             Some [[(''target'', Dict [(''LOG'', Dict [(''log-prefix'', Str ''DROP: ''), (''log-level'', Str ''3'')])])],
                   [(''target'', Str ''DROP'')]]))
   \<and> ((\<forall>v. lookup_chain st ''filter'' v ''INPUT'' \<noteq> None \<and> lookup_chain st ''filter'' v ''OUTPUT'' \<noteq> None)
        \<longrightarrow> fst (prepare spec_backend st) = Inr ())"
proof (intro conjI allI impI)
  show "prepare spec_backend (snd (prepare spec_backend st)) = prepare spec_backend st"
    using prepare_fixed[of st "fst (prepare spec_backend st)" "snd (prepare spec_backend st)"]
    by simp
next
  fix v rs
  assume "lookup_chain st ''filter'' v ''WOTT_LOG_DROP'' = Some rs"
  then show "lookup_chain (snd (prepare spec_backend st)) ''filter'' v ''WOTT_LOG_DROP'' = Some rs"
    by (rule prepare_drop_kept)
next
  fix v
  assume "fst (prepare spec_backend st) = Inr ()"
  then have p: "prepare spec_backend st = (Inr (), snd (prepare spec_backend st))"
    by (simp add: prod_eq_iff)
  assume "lookup_chain st ''filter'' v ''WOTT_LOG_DROP'' = None"
  from prepare_drop_created[OF p this]
  show "lookup_chain (snd (prepare spec_backend st)) ''filter'' v ''WOTT_LOG_DROP'' =
             Some [[(''target'', Dict [(''LOG'', Dict [(''log-prefix'', Str ''DROP: ''), (''log-level'', Str ''3'')])])],
                   [(''target'', Str ''DROP'')]]"
    by (simp add: log_rule_def drop_rule_def dict_of_def)
next
  assume "\<forall>v. lookup_chain st ''filter'' v ''INPUT'' \<noteq> None \<and> lookup_chain st ''filter'' v ''OUTPUT'' \<noteq> None"
  then show "fst (prepare spec_backend st) = Inr ()"
    by (rule prepare_succeeds)
qed

lemma lookup_fresh:
  "lookup_chain fresh_state ''filter'' v ''INPUT'' = Some []"
  "lookup_chain fresh_state ''filter'' v ''OUTPUT'' = Some []"
  "lookup_chain fresh_state ''filter'' v ''WOTT_LOG_DROP'' = None"
  by (simp_all add: lookup_chain_def fresh_state_def)

theorem prepare_idempotent_witness:
  "prepare spec_backend (snd (prepare spec_backend fresh_state)) = (Inr (), snd (prepare spec_backend fresh_state))
   \<and> lookup_chain (snd (prepare spec_backend fresh_state)) ''filter'' True ''WOTT_LOG_DROP'' =
        Some [[(''target'', Dict [(''LOG'', Dict [(''log-prefix'', Str ''DROP: ''), (''log-level'', Str ''3'')])])],
              [(''target'', Str ''DROP'')]]
   \<and> lookup_chain (snd (prepare spec_backend (snd (prepare spec_backend fresh_state)))) ''filter'' True ''WOTT_LOG_DROP'' =
        Some [[(''target'', Dict [(''LOG'', Dict [(''log-prefix'', Str ''DROP: ''), (''log-level'', Str ''3'')])])],
              [(''target'', Str ''DROP'')]]"
  using prepare_idempotent[of fresh_state]
        prepare_idempotent[of "snd (prepare spec_backend fresh_state)"]
  by (simp add: lookup_fresh prod_eq_iff)

theorem prepare_restores_jump_rules_witness:
  "prepare spec_backend
     (store_chain fresh_state ''filter'' False ''INPUT''
        [[(''protocol'', Str ''tcp''), (''target'', Str ''ACCEPT'')], [(''target'', Str ''WOTT_INPUT'')]])
   = (Inr (), snd (prepare spec_backend
     (store_chain fresh_state ''filter'' False ''INPUT''
        [[(''protocol'', Str ''tcp''), (''target'', Str ''ACCEPT'')], [(''target'', Str ''WOTT_INPUT'')]])))
   \<and> lookup_chain (snd (prepare spec_backend
     (store_chain fresh_state ''filter'' False ''INPUT''
        [[(''protocol'', Str ''tcp''), (''target'', Str ''ACCEPT'')], [(''target'', Str ''WOTT_INPUT'')]])))
       ''filter'' False ''INPUT''
     = Some [[(''target'', Str ''WOTT_INPUT'')], [(''protocol'', Str ''tcp''), (''target'', Str ''ACCEPT'')]]"
proof -
  let ?st = "store_chain fresh_state ''filter'' False ''INPUT''
        [[(''protocol'', Str ''tcp''), (''target'', Str ''ACCEPT'')], [(''target'', Str ''WOTT_INPUT'')]]"
  have "fst (prepare spec_backend ?st) = Inr ()"
    by code_simp
  then have p: "prepare spec_backend ?st = (Inr (), snd (prepare spec_backend ?st))"
    by (simp add: prod_eq_iff)
  show ?thesis
    using p prepare_restores_jump_rules[OF p, rule_format, of "(''WOTT_INPUT'', ''INPUT'')" False]
    by (auto simp add: lookup_store)
qed

section \<open>The rule steps on the model of the backend\<close>

lemma add_rules_sb:
  assumes "lookup_chain st t False c \<noteq> None" and "lookup_chain st t True c \<noteq> None"
  shows "add_rules spec_backend t c rules st =
           (Inr (), store_chain (store_chain st t False c [rule. (rule, is_ipv6) \<leftarrow> rules, \<not> is_ipv6])
                                t True c [rule. (rule, is_ipv6) \<leftarrow> rules, is_ipv6])"
  using assms
  by (simp add: add_rules_calls thenE_apply sb_sel sb_batch_add_rules_def lookup_store)

lemma add_block_rules_family_sb:
  assumes "lookup_chain st ''filter'' v ''WOTT_INPUT'' = Some rs"
  shows "batch_add_rules spec_backend TABLE (Triples [
           (INPUT_CHAIN, lo_rule, 1), (INPUT_CHAIN, conntrack_rule, 2), (INPUT_CHAIN, drop_rule, 0)]) None v st
         = (Inr (), store_chain st ''filter'' v ''WOTT_INPUT'' ([lo_rule, conntrack_rule] @ rs @ [drop_rule]))"
  using assms
  by (simp add: sb_sel sb_batch_add_rules_def thenE_apply unitE_def sb_add_rule_def TABLE_def
        INPUT_CHAIN_def lookup_store store_store)

lemma add_block_rules_sb:
  assumes "lookup_chain st ''filter'' False ''WOTT_INPUT'' = Some r4"
      and "lookup_chain st ''filter'' True ''WOTT_INPUT'' = Some r6"
  shows "add_block_rules spec_backend st =
           (Inr (), store_chain (store_chain st ''filter'' False ''WOTT_INPUT'' ([lo_rule, conntrack_rule] @ r4 @ [drop_rule]))
                      ''filter'' True ''WOTT_INPUT'' ([lo_rule, conntrack_rule] @ r6 @ [drop_rule]))"
proof -
  let ?b = "\<lambda>v. batch_add_rules spec_backend TABLE (Triples [
                   (INPUT_CHAIN, lo_rule, 1), (INPUT_CHAIN, conntrack_rule, 2), (INPUT_CHAIN, drop_rule, 0)]) None v"
  let ?s1 = "store_chain st ''filter'' False ''WOTT_INPUT'' ([lo_rule, conntrack_rule] @ r4 @ [drop_rule])"
  have e: "add_block_rules spec_backend = thenE (?b False) (?b True)"
    unfolding add_block_rules_def by (rule for_each_two)
  have a: "?b False st = (Inr (), ?s1)"
    by (rule add_block_rules_family_sb[OF assms(1)])
  have "lookup_chain ?s1 ''filter'' True ''WOTT_INPUT'' = Some r6"
    using assms(2) by (simp add: lookup_store)
  then have b: "?b True ?s1 = (Inr (), store_chain ?s1 ''filter'' True ''WOTT_INPUT'' ([lo_rule, conntrack_rule] @ r6 @ [drop_rule]))"
    by (rule add_block_rules_family_sb)
  show ?thesis
    by (simp only: e thenE_apply a b prod.case sum.case)
qed

lemma block_ports_sb:
  assumes "lookup_chain st ''filter'' False ''WOTT_INPUT'' \<noteq> None"
      and "lookup_chain st ''filter'' True ''WOTT_INPUT'' \<noteq> None"
      and "mapE (port_rule allow) ports_data = Inr rules"
  shows "block_ports spec_backend allow ports_data st =
           (Inr (), store_chain (store_chain st ''filter'' False ''WOTT_INPUT'' [rule. (rule, is_ipv6) \<leftarrow> rules, \<not> is_ipv6])
                                ''filter'' True ''WOTT_INPUT'' [rule. (rule, is_ipv6) \<leftarrow> rules, is_ipv6])"
  using assms(1,2)
  by (simp add: block_ports_def assms(3) TABLE_def INPUT_CHAIN_def add_rules_sb)

lemma fam_split:
  "[rule. (rule, is_ipv6) \<leftarrow> rules, is_ipv6 = v] =
     (if v then [rule. (rule, is_ipv6) \<leftarrow> rules, is_ipv6] else [rule. (rule, is_ipv6) \<leftarrow> rules, \<not> is_ipv6])"
  by (cases v) simp_all

text \<open>
  The repository documents what \<open>batch_add_rules\<close> with a chain does. In
  \<open>tests/test_agent.py\<close>, \<open>test_block_networks\<close> expects of \<open>block_networks([net2])\<close>
  the call \<^verbatim>\<open>batch_add_rules('filter', [rule2], chain=OUTPUT_CHAIN, ipv6=False)\<close> and
  says of it: "Initial state: net1 is blocked. Input: another network: net2. Result: net2
  gets blocked, net1 gets unblocked". The backend of section 6 does this; a backend that
  appends keeps the rule of net1. \<open>test_block_ports\<close> expects of \<open>block_ports\<close> the same
  call with \<open>chain=INPUT_CHAIN\<close>, and both functions make it through \<open>add_rules\<close>, which
  passes the chain on as a plain argument.
\<close>

lemma network_law_spec_backend:
  "lookup_chain
     (snd (block_networks spec_backend [(''10.2.0.0/16'', False)]
        (snd (block_networks spec_backend [(''10.1.0.0/16'', False)]
           (snd (prepare spec_backend fresh_state))))))
     ''filter'' False ''WOTT_OUTPUT''
   = Some [[(''dst'', Str ''10.2.0.0/16''), (''target'', Str ''WOTT_LOG_DROP'')]]"
  by code_simp

lemma network_law_appending_backend:
  "lookup_chain
     (snd (block_networks appending_backend [(''10.2.0.0/16'', False)]
        (snd (block_networks appending_backend [(''10.1.0.0/16'', False)]
           (snd (prepare appending_backend fresh_state))))))
     ''filter'' False ''WOTT_OUTPUT''
   = Some [[(''dst'', Str ''10.1.0.0/16''), (''target'', Str ''WOTT_LOG_DROP'')],
           [(''dst'', Str ''10.2.0.0/16''), (''target'', Str ''WOTT_LOG_DROP'')]]"
  by code_simp






lemma block_networks_sb:
  assumes "lookup_chain st ''filter'' False ''WOTT_OUTPUT'' \<noteq> None"
      and "lookup_chain st ''filter'' True ''WOTT_OUTPUT'' \<noteq> None"
  shows "\<exists>st'. block_networks spec_backend network_list st = (Inr (), st')
           \<and> (\<forall>v c. c \<noteq> ''WOTT_OUTPUT'' \<longrightarrow> lookup_chain st' ''filter'' v c = lookup_chain st ''filter'' v c)"
  using assms
  by (simp add: block_networks_def TABLE_def OUTPUT_CHAIN_def add_rules_sb lookup_store)

text \<open>
  C8. \<open>add_block_rules\<close> submits, for each family, the inserts into \<open>WOTT_INPUT\<close> of
  accept-on-loopback at position 1, accept-established-or-related at position 2 and the
  unconditional drop at position 0, which appends. On the backend of section 6, from a
  state that has the built-in chains, \<open>block\<close> with policy \<open>block\<close> returns and leaves
  in \<open>WOTT_INPUT\<close> of each family: the loopback rule, the established-or-related rule,
  the rules derived from \<open>allow_ports\<close> for that family, and the unconditional drop last.
  So every rule of \<open>allow_ports\<close> precedes the drop.
\<close>

theorem block_policy_block_order:
  assumes "get_or (bl_policy doc) ''allow'' = ''block''"
      and "\<forall>v. lookup_chain st ''filter'' v ''INPUT'' \<noteq> None \<and> lookup_chain st ''filter'' v ''OUTPUT'' \<noteq> None"
  shows "add_block_rules B =
           thenE (batch_add_rules B ''filter'' (Triples [
                    (''WOTT_INPUT'', [(''in-interface'', Str ''lo''), (''target'', Str ''ACCEPT'')], 1),
                    (''WOTT_INPUT'', [(''conntrack'', Dict [(''ctstate'', Str ''RELATED,ESTABLISHED'')]), (''target'', Str ''ACCEPT'')], 2),
                    (''WOTT_INPUT'', [(''target'', Str ''DROP'')], 0)]) None False)
                 (batch_add_rules B ''filter'' (Triples [
                    (''WOTT_INPUT'', [(''in-interface'', Str ''lo''), (''target'', Str ''ACCEPT'')], 1),
                    (''WOTT_INPUT'', [(''conntrack'', Dict [(''ctstate'', Str ''RELATED,ESTABLISHED'')]), (''target'', Str ''ACCEPT'')], 2),
                    (''WOTT_INPUT'', [(''target'', Str ''DROP'')], 0)]) None True)
       \<and> (\<exists>rules. mapE (port_rule False) (get_or (bl_allow_ports doc) []) = Inr rules
            \<and> fst (block spec_backend doc (st, l)) = Inr ()
            \<and> (\<forall>v. lookup_chain (fst (snd (block spec_backend doc (st, l)))) ''filter'' v ''WOTT_INPUT'' =
                  Some ([[(''in-interface'', Str ''lo''), (''target'', Str ''ACCEPT'')],
                         [(''conntrack'', Dict [(''ctstate'', Str ''RELATED,ESTABLISHED'')]), (''target'', Str ''ACCEPT'')]]
                        @ [rule. (rule, is_ipv6) \<leftarrow> rules, is_ipv6 = v]
                        @ [[(''target'', Str ''DROP'')]])))"
proof (rule conjI)
  have r: "lo_rule = [(''in-interface'', Str ''lo''), (''target'', Str ''ACCEPT'')]"
          "conntrack_rule = [(''conntrack'', Dict [(''ctstate'', Str ''RELATED,ESTABLISHED'')]), (''target'', Str ''ACCEPT'')]"
          "drop_rule = [(''target'', Str ''DROP'')]"
    by (simp_all add: lo_rule_def conntrack_rule_def drop_rule_def dict_of_def)
  show "add_block_rules B =
           thenE (batch_add_rules B ''filter'' (Triples [
                    (''WOTT_INPUT'', [(''in-interface'', Str ''lo''), (''target'', Str ''ACCEPT'')], 1),
                    (''WOTT_INPUT'', [(''conntrack'', Dict [(''ctstate'', Str ''RELATED,ESTABLISHED'')]), (''target'', Str ''ACCEPT'')], 2),
                    (''WOTT_INPUT'', [(''target'', Str ''DROP'')], 0)]) None False)
                 (batch_add_rules B ''filter'' (Triples [
                    (''WOTT_INPUT'', [(''in-interface'', Str ''lo''), (''target'', Str ''ACCEPT'')], 1),
                    (''WOTT_INPUT'', [(''conntrack'', Dict [(''ctstate'', Str ''RELATED,ESTABLISHED'')]), (''target'', Str ''ACCEPT'')], 2),
                    (''WOTT_INPUT'', [(''target'', Str ''DROP'')], 0)]) None True)"
    by (simp only: add_block_rules_def for_each_two r TABLE_def INPUT_CHAIN_def)
  let ?ports = "get_or (bl_allow_ports doc) []"
  let ?nets = "get_or (bl_block_networks doc) []"
  from mapE_port_rule_total[of False ?ports] obtain rules where
    m: "mapE (port_rule False) ?ports = Inr rules"
    by blast
  from prepare_succeeds[OF assms(2)] obtain s1 where p: "prepare spec_backend st = (Inr (), s1)"
    by (cases "prepare spec_backend st") auto
  have sk: "\<And>v. skeleton v s1"
    by (rule prepare_skeleton[OF p])
  from block_networks_sb[of s1 ?nets] sk obtain s2 where
    n: "block_networks spec_backend ?nets s1 = (Inr (), s2)" and
    n2: "\<And>v. lookup_chain s2 ''filter'' v ''WOTT_INPUT'' = Some []"
    unfolding skeleton_def by fastforce
  let ?s3 = "store_chain (store_chain s2 ''filter'' False ''WOTT_INPUT'' [rule. (rule, is_ipv6) \<leftarrow> rules, \<not> is_ipv6])
                                ''filter'' True ''WOTT_INPUT'' [rule. (rule, is_ipv6) \<leftarrow> rules, is_ipv6]"
  have b: "block_ports spec_backend False ?ports s2 = (Inr (), ?s3)"
    by (rule block_ports_sb) (simp_all add: n2 m)
  let ?s4 = "store_chain (store_chain ?s3 ''filter'' False ''WOTT_INPUT''
                ([lo_rule, conntrack_rule] @ [rule. (rule, is_ipv6) \<leftarrow> rules, \<not> is_ipv6] @ [drop_rule]))
                      ''filter'' True ''WOTT_INPUT''
                ([lo_rule, conntrack_rule] @ [rule. (rule, is_ipv6) \<leftarrow> rules, is_ipv6] @ [drop_rule])"
  have a: "add_block_rules spec_backend ?s3 = (Inr (), ?s4)"
    by (rule add_block_rules_sb) (simp_all add: lookup_store)
  have blk: "block spec_backend doc (st, l) = (Inr (), (?s4, l))"
    using assms(1) p n b a
    by (simp add: block_def Let_def try_except_IPTCError_def thenE_def bindE_def on_backend_def)
  show "\<exists>rules. mapE (port_rule False) ?ports = Inr rules
            \<and> fst (block spec_backend doc (st, l)) = Inr ()
            \<and> (\<forall>v. lookup_chain (fst (snd (block spec_backend doc (st, l)))) ''filter'' v ''WOTT_INPUT'' =
                  Some ([[(''in-interface'', Str ''lo''), (''target'', Str ''ACCEPT'')],
                         [(''conntrack'', Dict [(''ctstate'', Str ''RELATED,ESTABLISHED'')]), (''target'', Str ''ACCEPT'')]]
                        @ [rule. (rule, is_ipv6) \<leftarrow> rules, is_ipv6 = v]
                        @ [[(''target'', Str ''DROP'')]]))"
    apply (rule exI[of _ rules])
    apply (simp only: m blk fst_conv snd_conv fam_split r)
    apply (simp add: lookup_store)
    done
qed

theorem block_policy_block_order_witness:
  "fst (block spec_backend
     \<lparr>bl_policy = Some ''block'', bl_block_networks = None, bl_block_ports = None,
      bl_allow_ports = Some [(''0.0.0.0'', ''tcp'', 22, False)]\<rparr> (fresh_state, [])) = Inr ()
   \<and> lookup_chain (fst (snd (block spec_backend
     \<lparr>bl_policy = Some ''block'', bl_block_networks = None, bl_block_ports = None,
      bl_allow_ports = Some [(''0.0.0.0'', ''tcp'', 22, False)]\<rparr> (fresh_state, [])))) ''filter'' False ''WOTT_INPUT''
     = Some [[(''in-interface'', Str ''lo''), (''target'', Str ''ACCEPT'')],
             [(''conntrack'', Dict [(''ctstate'', Str ''RELATED,ESTABLISHED'')]), (''target'', Str ''ACCEPT'')],
             [(''protocol'', Str ''tcp''), (''tcp'', Dict [(''dport'', Str ''22'')]), (''target'', Str ''ACCEPT'')],
             [(''target'', Str ''DROP'')]]"
proof -
  let ?doc = "\<lparr>bl_policy = Some ''block'', bl_block_networks = None, bl_block_ports = None,
      bl_allow_ports = Some [(''0.0.0.0'', ''tcp'', 22, False)]\<rparr>"
  have h1: "get_or (bl_policy ?doc) ''allow'' = ''block''"
    by (simp add: get_or_def)
  have h2: "\<forall>v. lookup_chain fresh_state ''filter'' v ''INPUT'' \<noteq> None
             \<and> lookup_chain fresh_state ''filter'' v ''OUTPUT'' \<noteq> None"
    by (simp add: lookup_fresh)
  have m: "mapE (port_rule False) [(''0.0.0.0'', ''tcp'', 22, False)] =
             Inr [([(''protocol'', Str ''tcp''), (''tcp'', Dict [(''dport'', Str ''22'')]), (''target'', Str ''ACCEPT'')], False)]"
    by code_simp
  from block_policy_block_order[OF h1 h2, of spec_backend "[]"]
  obtain rules where
    a: "mapE (port_rule False) (get_or (bl_allow_ports ?doc) []) = Inr rules" and
    c: "fst (block spec_backend ?doc (fresh_state, [])) = Inr ()" and
    d: "\<forall>v. lookup_chain (fst (snd (block spec_backend ?doc (fresh_state, [])))) ''filter'' v ''WOTT_INPUT'' =
                  Some ([[(''in-interface'', Str ''lo''), (''target'', Str ''ACCEPT'')],
                         [(''conntrack'', Dict [(''ctstate'', Str ''RELATED,ESTABLISHED'')]), (''target'', Str ''ACCEPT'')]]
                        @ [rule. (rule, is_ipv6) \<leftarrow> rules, is_ipv6 = v]
                        @ [[(''target'', Str ''DROP'')]])"
    by blast
  from a have "rules = [([(''protocol'', Str ''tcp''), (''tcp'', Dict [(''dport'', Str ''22'')]), (''target'', Str ''ACCEPT'')], False)]"
    by (simp only: get_or_def blocklist.simps option.case m sum.inject)
  with c d[rule_format, of False] show ?thesis
    by simp
qed

section \<open>The diagnostic export \<open>dump\<close>\<close>

lemma bindE_apply:
  "bindE m f st = (case m st of (Inl e, s') \<Rightarrow> (Inl e, s') | (Inr a, s') \<Rightarrow> f a s')"
  by (simp add: bindE_def)

lemma concat_map_Nil: "concat (map (\<lambda>rule. []) chain) = []"
  by (induction chain) simp_all

lemma dump_chain_ro:
  assumes "\<forall>t c v. get_policy B t c v s = (Inr (gp t c v), s)"
  shows "dump_chain B t v (c, rs) acc s = (Inr (AList.update c (spec_chain_dump gp t v c rs) acc), s)"
  using assms
  by (cases "c = ''WOTT_OUTPUT''")
     (simp_all add: dump_chain_def bindE_apply unitE_def Let_def spec_chain_dump_def OUTPUT_CHAIN_def
        concat_map_Nil)

lemma foldE_dump_chain:
  assumes "\<forall>t c v. get_policy B t c v s = (Inr (gp t c v), s)"
  shows "foldE items (dump_chain B t v) acc s =
           (Inr (fold (\<lambda>(c, rs). AList.update c (spec_chain_dump gp t v c rs)) items acc), s)"
proof (induction items arbitrary: acc)
  case Nil
  show ?case by (simp add: unitE_def)
next
  case (Cons x xs)
  obtain c rs where x: "x = (c, rs)" by (cases x)
  show ?case
    by (simp add: x bindE_apply dump_chain_ro[OF assms] Cons.IH)
qed

lemma update_fresh: "k \<notin> fst ` set al \<Longrightarrow> AList.update k v al = al @ [(k, v)]"
  by (induction al) auto

lemma fold_update_distinct:
  assumes "distinct (map fst xs)" and "fst ` set acc \<inter> fst ` set xs = {}"
  shows "fold (\<lambda>(c, rs). AList.update c (f c rs)) xs acc = acc @ [(c, f c rs). (c, rs) \<leftarrow> xs]"
  using assms
proof (induction xs arbitrary: acc)
  case Nil
  show ?case by simp
next
  case (Cons x xs)
  obtain c rs where x: "x = (c, rs)" by (cases x)
  from Cons.prems x have fresh: "c \<notin> fst ` set acc" by auto
  have "fold (\<lambda>(c, rs). AList.update c (f c rs)) xs (acc @ [(c, f c rs)])
          = (acc @ [(c, f c rs)]) @ [(c, f c rs). (c, rs) \<leftarrow> xs]"
    using Cons.prems x by (intro Cons.IH) auto
  then show ?case
    by (simp add: x update_fresh[OF fresh])
qed

lemma dump_step_ro:
  assumes "\<forall>t v. dump_table B t v s = (Inr (dt t v), s)"
      and "\<forall>t c v. get_policy B t c v s = (Inr (gp t c v), s)"
      and "\<forall>t v. distinct (map fst (dt t v))"
      and "map_of tables (if v then ''v6'' else ''v4'') = Some tf"
  shows "dump_step B (t, v) tables s =
           (Inr (AList.update (if v then ''v6'' else ''v4'')
                   (AList.update t [(c, spec_chain_dump gp t v c rs). (c, rs) \<leftarrow> dt t v] tf) tables), s)"
proof -
  have "fold (\<lambda>(c, rs). AList.update c (spec_chain_dump gp t v c rs)) (dt t v) []
          = [] @ [(c, spec_chain_dump gp t v c rs). (c, rs) \<leftarrow> dt t v]"
    using assms(3) by (intro fold_update_distinct) auto
  then show ?thesis
    using assms(1,4)
    by (simp add: dump_step_def bindE_apply foldE_dump_chain[OF assms(2)] Let_def unitE_def)
qed

text \<open>
  C10. For a backend whose reads \<open>dump_table\<close> and \<open>get_policy\<close> end normally and leave
  the state as it is, and whose tables are dicts (the chain names of a table are
  distinct): \<open>dump\<close> returns, under \<open>v6\<close> and \<open>v4\<close>, for each of the tables
  \<open>filter\<close>, \<open>nat\<close> and \<open>mangle\<close>, every chain of the table in the backend's order with
  its full rule list, and with the policy when the backend reports a non-empty one;
  except that the rule list of a chain named \<open>WOTT_OUTPUT\<close> is empty whatever the chain
  holds.
\<close>

theorem dump_result:
  assumes "\<forall>t v. dump_table B t v s = (Inr (dt t v), s)"
      and "\<forall>t c v. get_policy B t c v s = (Inr (gp t c v), s)"
      and "\<forall>t v. distinct (map fst (dt t v))"
  shows "dump B s =
     (Inr [(''v6'', [(t, [(c, spec_chain_dump gp t True c rs). (c, rs) \<leftarrow> dt t True]).
                       t \<leftarrow> [''filter'', ''nat'', ''mangle'']]),
           (''v4'', [(t, [(c, spec_chain_dump gp t False c rs). (c, rs) \<leftarrow> dt t False]).
                       t \<leftarrow> [''filter'', ''nat'', ''mangle'']])], s)"
  by (simp add: dump_def bindE_apply unitE_def dump_step_ro[OF assms])

theorem dump_result_witness:
  "dump spec_backend
     \<lparr>chains = (\<lambda>t v. if t = ''filter'' \<and> \<not> v
                 then [(''OUTPUT'', [[(''target'', Str ''WOTT_OUTPUT'')]]),
                       (''WOTT_OUTPUT'', [[(''dst'', Str ''10.0.0.0/8''), (''target'', Str ''WOTT_LOG_DROP'')]])]
                 else []),
      policies = (\<lambda>t c v. if c = ''OUTPUT'' then Some ''ACCEPT'' else None)\<rparr>
   = (Inr [(''v6'', [(''filter'', []), (''nat'', []), (''mangle'', [])]),
           (''v4'', [(''filter'',
                       [(''OUTPUT'', \<lparr>cd_rules = [[(''target'', Str ''WOTT_OUTPUT'')]], cd_policy = Some ''ACCEPT''\<rparr>),
                        (''WOTT_OUTPUT'', \<lparr>cd_rules = [], cd_policy = None\<rparr>)]),
                     (''nat'', []), (''mangle'', [])])],
      \<lparr>chains = (\<lambda>t v. if t = ''filter'' \<and> \<not> v
                 then [(''OUTPUT'', [[(''target'', Str ''WOTT_OUTPUT'')]]),
                       (''WOTT_OUTPUT'', [[(''dst'', Str ''10.0.0.0/8''), (''target'', Str ''WOTT_LOG_DROP'')]])]
                 else []),
      policies = (\<lambda>t c v. if c = ''OUTPUT'' then Some ''ACCEPT'' else None)\<rparr>)"
proof -
  let ?S = "\<lparr>chains = (\<lambda>t v. if t = ''filter'' \<and> \<not> v
                 then [(''OUTPUT'', [[(''target'', Str ''WOTT_OUTPUT'')]]),
                       (''WOTT_OUTPUT'', [[(''dst'', Str ''10.0.0.0/8''), (''target'', Str ''WOTT_LOG_DROP'')]])]
                 else []),
      policies = (\<lambda>t c v. if c = ''OUTPUT'' then Some ''ACCEPT'' else None)\<rparr>"
  have h1: "\<forall>t v. dump_table spec_backend t v ?S = (Inr (chains ?S t v), ?S)"
    by (simp add: sb_sel sb_dump_table_def)
  have h2: "\<forall>t c v. get_policy spec_backend t c v ?S = (Inr (policies ?S t c v), ?S)"
    by (simp add: sb_sel sb_get_policy_def)
  have h3: "\<forall>t v. distinct (map fst (chains ?S t v))"
    by simp
  show ?thesis
    using dump_result[OF h1 h2 h3]
    by (simp add: spec_chain_dump_def truthy_def)
qed

end
